theory Spec2Isabelle
  imports Main
begin

section \<open>Python string and dictionary helpers\<close>

text \<open>
  Text is a list of 8-bit characters. \<open>startswith\<close>, \<open>endswith\<close> and \<open>py_in\<close>
  are Python's \<^verbatim>\<open>str.startswith\<close>, \<^verbatim>\<open>str.endswith\<close> and the substring test
  \<^verbatim>\<open>needle in hay\<close>.
\<close>

definition startswith :: "string \<Rightarrow> string \<Rightarrow> bool" where
  "startswith s pre = (take (length pre) s = pre)"

definition endswith :: "string \<Rightarrow> string \<Rightarrow> bool" where
  "endswith s suf = (length suf \<le> length s \<and> drop (length s - length suf) s = suf)"

fun py_in :: "string \<Rightarrow> string \<Rightarrow> bool" where
  "py_in needle [] = (needle = [])"
| "py_in needle (c # cs) = (startswith (c # cs) needle \<or> py_in needle cs)"

text \<open>\<^verbatim>\<open>d.get(key, default)\<close> on a dictionary with string values.\<close>

definition dict_get :: "(string \<rightharpoonup> string) \<Rightarrow> string \<Rightarrow> string \<Rightarrow> string" where
  "dict_get d k dflt = (case d k of None \<Rightarrow> dflt | Some v \<Rightarrow> v)"

text \<open>\<^verbatim>\<open>str(n)\<close> for a non-negative integer, as used by the f-strings of the summary.\<close>

definition digit_char :: "nat \<Rightarrow> char" where
  "digit_char n = ''0123456789'' ! n"

function str_nat :: "nat \<Rightarrow> string" where
  "str_nat n = (if n < 10 then [digit_char n] else str_nat (n div 10) @ [digit_char (n mod 10)])"
  by pat_completeness auto
termination
  by (relation "measure id") auto

section \<open>debug\_credentials.py: the recorded data\<close>

text \<open>
  The entries that the handlers of \<^verbatim>\<open>comprehensive_debug_investigation\<close> append to
  \<^verbatim>\<open>debug_data\<close>. A request entry is the dictionary built by \<^verbatim>\<open>handle_request\<close>;
  the four keys that \<^verbatim>\<open>handle_response\<close> adds with \<^verbatim>\<open>req.update\<close> are optional
  fields, \<open>None\<close> while the key is absent.
\<close>

record console_entry =
  ce_timestamp :: string
  ce_type :: string
  ce_text :: string
  ce_location :: "string option"

record request_data =
  rq_timestamp :: string
  rq_method :: string
  rq_url :: string
  rq_headers :: "string \<rightharpoonup> string"
  rq_resource_type :: string
  rq_status :: "int option"
  rq_status_text :: "string option"
  rq_headers_response :: "(string \<rightharpoonup> string) option"
  rq_ok :: "bool option"

record error_data =
  er_timestamp :: string
  er_message :: string
  er_type :: string

record dom_analysis =
  body_length :: "nat option"
  has_react_root :: "bool option"
  react_elements_count :: "nat option"

record page_state =
  error_boundary :: "string option"
  specific_error_found :: "bool option"
  js_execution :: "bool option"
  react_loaded :: "bool option"

record debug_data =
  dd_timestamp :: string
  dd_url :: string
  console_logs :: "console_entry list"
  network_requests :: "request_data list"
  errors :: "error_data list"
  dd_dom_analysis :: dom_analysis
  dd_page_state :: page_state

text \<open>The objects that the browser driver hands to the handlers.\<close>

record console_message =
  msg_type :: string
  msg_text :: string
  msg_location :: "string option"

record request =
  request_method :: string
  request_url :: string
  request_headers :: "string \<rightharpoonup> string"
  request_resource_type :: string

record response =
  response_url :: string
  response_status :: int
  response_status_text :: string
  response_headers :: "string \<rightharpoonup> string"
  response_ok :: bool

text \<open>
  The lines that the code prints, one constructor for each \<^verbatim>\<open>print\<close> statement
  of the handlers and of the final analysis, with the values it interpolates.
\<close>

datatype printed =
    Console_alert string string
  | Location_line string
  | Request_line string string
  | Failed_request int string
  | Status_text_line string
  | Mime_issue_js string
  | Mime_issue_css string
  | Page_error_line string
  | Critical_issues_header
  | Critical_issue_line string
  | No_critical_issues
  | Debug_data_saved
  | Investigation_error_line string

section \<open>debug\_credentials.py: the event handlers\<close>

definition handle_console :: "string \<Rightarrow> console_message \<Rightarrow> debug_data \<Rightarrow> debug_data \<times> printed list" where
  "handle_console now msg d =
     (let console_entry = \<lparr>ce_timestamp = now, ce_type = msg_type msg, ce_text = msg_text msg,
                             ce_location = msg_location msg\<rparr>
      in (d\<lparr>console_logs := console_logs d @ [console_entry]\<rparr>,
          if msg_type msg \<in> set [''error'', ''warning'']
          then Console_alert (msg_type msg) (msg_text msg) #
               (case msg_location msg of None \<Rightarrow> [] | Some l \<Rightarrow> [Location_line l])
          else []))"

definition handle_request :: "string \<Rightarrow> request \<Rightarrow> debug_data \<Rightarrow> debug_data \<times> printed list" where
  "handle_request now rq d =
     (let request_data = \<lparr>rq_timestamp = now, rq_method = request_method rq, rq_url = request_url rq,
                            rq_headers = request_headers rq,
                            rq_resource_type = request_resource_type rq,
                            rq_status = None, rq_status_text = None,
                            rq_headers_response = None, rq_ok = None\<rparr>
      in (d\<lparr>network_requests := network_requests d @ [request_data]\<rparr>,
          [Request_line (request_method rq) (request_url rq)]))"

text \<open>
  The loop of \<^verbatim>\<open>handle_response\<close>: the first entry of the list whose url is the
  response's url is updated in place, and the loop breaks.
\<close>

definition req_update :: "response \<Rightarrow> request_data \<Rightarrow> request_data" where
  "req_update r req = req\<lparr>rq_status := Some (response_status r),
                           rq_status_text := Some (response_status_text r),
                           rq_headers_response := Some (response_headers r),
                           rq_ok := Some (response_ok r)\<rparr>"

fun find_corresponding :: "response \<Rightarrow> request_data list \<Rightarrow> request_data list" where
  "find_corresponding r [] = []"
| "find_corresponding r (req # reqs) =
     (if rq_url req = response_url r then req_update r req # reqs
      else req # find_corresponding r reqs)"

definition failed_request_lines :: "response \<Rightarrow> printed list" where
  "failed_request_lines r =
     (if \<not> response_ok r
      then [Failed_request (response_status r) (response_url r),
            Status_text_line (response_status_text r)] @
           (let content_type = dict_get (response_headers r) ''content-type'' ''''
            in if endswith (response_url r) ''.js'' \<and> \<not> py_in ''javascript'' content_type
               then [Mime_issue_js content_type]
               else if endswith (response_url r) ''.css'' \<and> \<not> py_in ''css'' content_type
               then [Mime_issue_css content_type]
               else [])
      else [])"

definition handle_response :: "response \<Rightarrow> debug_data \<Rightarrow> debug_data \<times> printed list" where
  "handle_response r d =
     (d\<lparr>network_requests := find_corresponding r (network_requests d)\<rparr>,
      failed_request_lines r)"

definition handle_page_error :: "string \<Rightarrow> string \<Rightarrow> debug_data \<Rightarrow> debug_data \<times> printed list" where
  "handle_page_error now error d =
     (let error_data = \<lparr>er_timestamp = now, er_message = error, er_type = ''page_error''\<rparr>
      in (d\<lparr>errors := errors d @ [error_data]\<rparr>, [Page_error_line error]))"

text \<open>
  The four \<^verbatim>\<open>page.on\<close> registrations: the driver delivers one event at a time, each
  with the value of \<^verbatim>\<open>datetime.now().isoformat()\<close> at its arrival.
\<close>

datatype event =
    Console console_message
  | Request request
  | Response response
  | Page_error string

fun on_event :: "string \<times> event \<Rightarrow> debug_data \<Rightarrow> debug_data \<times> printed list" where
  "on_event (now, Console msg) d = handle_console now msg d"
| "on_event (now, Request rq) d = handle_request now rq d"
| "on_event (now, Response r) d = handle_response r d"
| "on_event (now, Page_error e) d = handle_page_error now e d"

fun run_session :: "(string \<times> event) list \<Rightarrow> debug_data \<Rightarrow> debug_data \<times> printed list" where
  "run_session [] d = (d, [])"
| "run_session (ev # evs) d =
     (let (d1, out1) = on_event ev d; (d2, out2) = run_session evs d1 in (d2, out1 @ out2))"

text \<open>The state at the start of the investigation.\<close>

definition initial_debug_data :: "string \<Rightarrow> debug_data" where
  "initial_debug_data now =
     \<lparr>dd_timestamp = now,
      dd_url = ''https://wallet-14mn5sesf-aiden-lipperts-projects.vercel.app/credentials'',
      console_logs = [], network_requests = [], errors = [],
      dd_dom_analysis = \<lparr>body_length = None, has_react_root = None, react_elements_count = None\<rparr>,
      dd_page_state = \<lparr>error_boundary = None, specific_error_found = None,
                        js_execution = None, react_loaded = None\<rparr>\<rparr>"

section \<open>debug\_credentials.py: network analysis and final analysis\<close>

definition req_get_ok :: "request_data \<Rightarrow> bool" where
  "req_get_ok req = (case rq_ok req of None \<Rightarrow> True | Some b \<Rightarrow> b)"

definition failed_requests :: "debug_data \<Rightarrow> request_data list" where
  "failed_requests d = filter (\<lambda>req. rq_status req \<noteq> None \<and> \<not> req_get_ok req) (network_requests d)"

definition successful_requests :: "debug_data \<Rightarrow> request_data list" where
  "successful_requests d = filter (\<lambda>req. rq_status req \<noteq> None \<and> req_get_ok req) (network_requests d)"

definition error_logs :: "debug_data \<Rightarrow> console_entry list" where
  "error_logs d = filter (\<lambda>log. ce_type log = ''error'') (console_logs d)"

definition warning_logs :: "debug_data \<Rightarrow> console_entry list" where
  "warning_logs d = filter (\<lambda>log. ce_type log = ''warning'') (console_logs d)"

record summary =
  critical_issues :: "string list"
  warnings :: "string list"
  recommendations :: "string list"

definition critical_issues_of :: "debug_data \<Rightarrow> string list" where
  "critical_issues_of d =
     (if length (error_logs d) > 0
      then [str_nat (length (error_logs d)) @ '' console errors detected''] else []) @
     (if length (failed_requests d) > 0
      then [str_nat (length (failed_requests d)) @ '' failed network requests''] else []) @
     (if \<not> (case js_execution (dd_page_state d) of None \<Rightarrow> True | Some b \<Rightarrow> b)
      then [''JavaScript execution failed''] else []) @
     (if (case error_boundary (dd_page_state d) of None \<Rightarrow> False | Some t \<Rightarrow> t \<noteq> [])
      then [''Error boundary activated''] else [])"
text \<open>
  Step 7 of the investigation, inside the \<^verbatim>\<open>try\<close> block: the summary is built from
  \<^verbatim>\<open>debug_data\<close> and printed, then \<^verbatim>\<open>debug_data\<close> is written to the report file with
  \<^verbatim>\<open>json.dump\<close> and the pair of \<^verbatim>\<open>debug_data\<close> and the summary is returned. Opening or
  writing the file succeeds or raises; when it raises, the \<^verbatim>\<open>except\<close> clause prints the
  exception, appends an entry of type \<^verbatim>\<open>investigation_error\<close> to
  \<^verbatim>\<open>debug_data['errors']\<close> and returns a summary whose only critical issue is the text
  of the exception. The function returns \<^verbatim>\<open>debug_data\<close> as the code leaves it, the
  summary returned, the lines printed, and what was written to the report file.
\<close>

datatype write_outcome = Written | Write_failed string

definition final_analysis ::
  "string \<Rightarrow> write_outcome \<Rightarrow> debug_data \<Rightarrow> debug_data \<times> summary \<times> printed list \<times> debug_data option" where
  "final_analysis now outcome d =
     (let summary = \<lparr>critical_issues = critical_issues_of d, warnings = [], recommendations = []\<rparr>;
          printed_summary =
            Critical_issues_header # map Critical_issue_line (critical_issues summary) @
            (if critical_issues summary = [] then [No_critical_issues] else [])
      in case outcome of
           Written \<Rightarrow> (d, summary, printed_summary @ [Debug_data_saved], Some d)
         | Write_failed e \<Rightarrow>
             (d\<lparr>errors := errors d @
                  [\<lparr>er_timestamp = now, er_message = e, er_type = ''investigation_error''\<rparr>]\<rparr>,
              \<lparr>critical_issues = [e], warnings = [], recommendations = []\<rparr>,
              printed_summary @ [Investigation_error_line e],
              None))"

section \<open>debug\_wallet\_errors.py: the pattern analysis\<close>

text \<open>
  The entries that \<^verbatim>\<open>handle_console\<close> of \<^verbatim>\<open>analyze_wallet_errors\<close> appends to
  \<^verbatim>\<open>console_messages\<close>.
\<close>

record wallet_console_message =
  wm_type :: string
  wm_text :: string
  wm_location :: "string option"
  wm_timestamp :: string

text \<open>
  \<^verbatim>\<open>str.lower\<close>. On a text of 8-bit characters it maps the letters A-Z; no
  character outside A-Z has a lower-case form among the letters of the word tested below.
\<close>

definition lower_char :: "char \<Rightarrow> char" where
  "lower_char c =
     (case List.find (\<lambda>(u, l). u = c) (zip ''ABCDEFGHIJKLMNOPQRSTUVWXYZ'' ''abcdefghijklmnopqrstuvwxyz'') of
        None \<Rightarrow> c | Some (u, l) \<Rightarrow> l)"

definition lower :: "string \<Rightarrow> string" where
  "lower s = map lower_char s"

definition suppressed_errors :: "wallet_console_message list \<Rightarrow> wallet_console_message list" where
  "suppressed_errors console_messages =
     filter (\<lambda>msg. py_in ''suppressed'' (lower (wm_text msg))) console_messages"

definition genuine_errors :: "wallet_console_message list \<Rightarrow> wallet_console_message list" where
  "genuine_errors console_messages =
     filter (\<lambda>msg. wm_type msg = ''error'' \<and> \<not> py_in ''suppressed'' (lower (wm_text msg)))
       console_messages"

datatype wallet_printed =
    Suppressed_errors_line nat
  | Genuine_errors_line nat
  | Genuine_errors_header
  | Genuine_error_item string

record wallet_counts =
  suppressed_count :: nat
  genuine_error_count :: nat

text \<open>
  The recommendation step: the two lists are computed from \<^verbatim>\<open>console_messages\<close>, their
  sizes printed, the genuine errors listed, and the sizes returned in the result.
\<close>

definition analyze_patterns ::
  "wallet_console_message list \<Rightarrow> wallet_console_message list \<times> wallet_counts \<times> wallet_printed list" where
  "analyze_patterns console_messages =
     (console_messages,
      \<lparr>suppressed_count = length (suppressed_errors console_messages),
       genuine_error_count = length (genuine_errors console_messages)\<rparr>,
      [Suppressed_errors_line (length (suppressed_errors console_messages)),
       Genuine_errors_line (length (genuine_errors console_messages))] @
      (if genuine_errors console_messages \<noteq> []
       then Genuine_errors_header # map (\<lambda>error. Genuine_error_item (wm_text error))
              (genuine_errors console_messages)
       else []))"

section \<open>Regular expressions of the \<^verbatim>\<open>re\<close> module\<close>

text \<open>
  A pattern is kept as the source writes it, one piece for each element of the pattern
  text: \<open>Lit c\<close> is the character \<open>c\<close>, \<open>Esc c\<close> is a backslash followed by \<open>c\<close>,
  \<open>Dot\<close> is \<^verbatim>\<open>.\<close>, \<open>Not_in cs\<close> is the class \<^verbatim>\<open>[^cs]\<close>, \<open>Star\<close> and \<open>Plus\<close> are
  the greedy repetitions \<^verbatim>\<open>*\<close> and \<^verbatim>\<open>+\<close> of one atom, \<open>Bol\<close> is \<^verbatim>\<open>^\<close>, and
  \<open>Group_open\<close>, \<open>Group_close\<close> are the parentheses of the one capturing group a
  pattern of this repository has. These are the constructs the patterns of the
  repository use.
\<close>

datatype atom = Lit char | Esc char | Dot | Not_in "char list"

datatype piece = One atom | Star atom | Plus atom | Bol | Group_open | Group_close

type_synonym pattern = "piece list"

definition lit :: "string \<Rightarrow> pattern" where
  "lit s = map (\<lambda>c. One (Lit c)) s"

definition dq :: char where
  "dq = CHR 0x22"

definition sq :: char where
  "sq = CHR 0x27"

definition backslash :: char where
  "backslash = CHR 0x5C"

definition newline :: char where
  "newline = CHR 0x0A"

record re_flags =
  IGNORECASE :: bool
  MULTILINE :: bool

definition no_flags :: re_flags where
  "no_flags = \<lparr>IGNORECASE = False, MULTILINE = False\<rparr>"

text \<open>
  Compiling a pattern. The parser of \<^verbatim>\<open>re\<close> accepts a backslash before a character
  that is not an ASCII letter or digit as that character, knows the category escapes
  \<^verbatim>\<open>\d \D \s \S \w \W\<close> and the control characters \<^verbatim>\<open>\a \f \n \r \t \v\<close>, and
  raises \<^verbatim>\<open>re.error("bad escape \c at position p")\<close> for any other ASCII letter
  (since Python 3.6), \<open>p\<close> being the offset of the backslash in the pattern text.
  The escapes \<^verbatim>\<open>\A \b \B \Z \x \u \U \N\<close> and the numeric ones are valid Python but
  occur nowhere in the repository; they are reported as not modelled.
\<close>

datatype re_error = Bad_escape char nat | Not_modelled char nat

definition ascii_letters :: "char list" where
  "ascii_letters = ''abcdefghijklmnopqrstuvwxyzABCDEFGHIJKLMNOPQRSTUVWXYZ''"

definition check_escape :: "char \<Rightarrow> nat \<Rightarrow> re_error option" where
  "check_escape c pos =
     (if c \<in> set ''dDsSwWafnrtv'' then None
      else if c \<in> set ''AbBZxuUN0123456789'' then Some (Not_modelled c pos)
      else if c \<in> set ascii_letters then Some (Bad_escape c pos)
      else None)"

fun check_atom :: "atom \<Rightarrow> nat \<Rightarrow> re_error option" where
  "check_atom (Esc c) pos = check_escape c pos"
| "check_atom a pos = None"

text \<open>The number of characters an element takes in the pattern text.\<close>

fun atom_width :: "atom \<Rightarrow> nat" where
  "atom_width (Lit c) = 1"
| "atom_width (Esc c) = 2"
| "atom_width Dot = 1"
| "atom_width (Not_in cs) = length cs + 3"

fun piece_width :: "piece \<Rightarrow> nat" where
  "piece_width (One a) = atom_width a"
| "piece_width (Star a) = atom_width a + 1"
| "piece_width (Plus a) = atom_width a + 1"
| "piece_width Bol = 1"
| "piece_width Group_open = 1"
| "piece_width Group_close = 1"

fun check_piece :: "piece \<Rightarrow> nat \<Rightarrow> re_error option" where
  "check_piece (One a) pos = check_atom a pos"
| "check_piece (Star a) pos = check_atom a pos"
| "check_piece (Plus a) pos = check_atom a pos"
| "check_piece p pos = None"

fun compile_from :: "nat \<Rightarrow> pattern \<Rightarrow> re_error option" where
  "compile_from pos [] = None"
| "compile_from pos (p # ps) =
     (case check_piece p pos of
        Some e \<Rightarrow> Some e
      | None \<Rightarrow> compile_from (pos + piece_width p) ps)"

definition re_compile :: "pattern \<Rightarrow> re_error + pattern" where
  "re_compile p = (case compile_from 0 p of Some e \<Rightarrow> Inl e | None \<Rightarrow> Inr p)"

text \<open>\<^verbatim>\<open>str(e)\<close> of the exception.\<close>

fun str_re_error :: "re_error \<Rightarrow> string" where
  "str_re_error (Bad_escape c pos) = ''bad escape '' @ [backslash, c] @ '' at position '' @ str_nat pos"
| "str_re_error (Not_modelled c pos) = ''escape '' @ [backslash, c] @ '' at position '' @ str_nat pos"

text \<open>
  Matching one character. Case is folded on the letters A-Z; white space, digits and
  word characters are the ASCII ones.
\<close>

definition char_eq :: "re_flags \<Rightarrow> char \<Rightarrow> char \<Rightarrow> bool" where
  "char_eq f c x = (if IGNORECASE f then lower_char c = lower_char x else c = x)"

definition is_space :: "char \<Rightarrow> bool" where
  "is_space x = (x \<in> set [CHR '' '', CHR 0x09, CHR 0x0A, CHR 0x0B, CHR 0x0C, CHR 0x0D])"

definition is_digit :: "char \<Rightarrow> bool" where
  "is_digit x = (x \<in> set ''0123456789'')"

definition is_word :: "char \<Rightarrow> bool" where
  "is_word x = (x \<in> set ascii_letters \<or> is_digit x \<or> x = CHR ''_'')"

definition escape_matches :: "re_flags \<Rightarrow> char \<Rightarrow> char \<Rightarrow> bool" where
  "escape_matches f c x =
     (if c = CHR ''s'' then is_space x
      else if c = CHR ''S'' then \<not> is_space x
      else if c = CHR ''d'' then is_digit x
      else if c = CHR ''D'' then \<not> is_digit x
      else if c = CHR ''w'' then is_word x
      else if c = CHR ''W'' then \<not> is_word x
      else if c = CHR ''a'' then x = CHR 0x07
      else if c = CHR ''f'' then x = CHR 0x0C
      else if c = CHR ''n'' then x = CHR 0x0A
      else if c = CHR ''r'' then x = CHR 0x0D
      else if c = CHR ''t'' then x = CHR 0x09
      else if c = CHR ''v'' then x = CHR 0x0B
      else char_eq f c x)"

fun atom_matches :: "re_flags \<Rightarrow> atom \<Rightarrow> char \<Rightarrow> bool" where
  "atom_matches f (Lit c) x = char_eq f c x"
| "atom_matches f (Esc c) x = escape_matches f c x"
| "atom_matches f Dot x = (x \<noteq> newline)"
| "atom_matches f (Not_in cs) x = list_all (\<lambda>c. \<not> char_eq f c x) cs"

text \<open>
  \<^verbatim>\<open>^\<close> matches at the start of the text and, with \<^verbatim>\<open>re.MULTILINE\<close>, after each
  newline; \<open>prev\<close> is the character before the current position.
\<close>

definition at_line_start :: "re_flags \<Rightarrow> char option \<Rightarrow> bool" where
  "at_line_start f prev = (prev = None \<or> (MULTILINE f \<and> prev = Some newline))"

text \<open>
  The backtracking matcher: \<open>re_match f p prev cap s\<close> tries the pattern at the start
  of \<open>s\<close> and returns, for the first way to match in the order a backtracking engine
  tries them (a greedy repetition takes as many characters as it can and gives them back
  one by one), the text left after the match and the text positions where the group
  opened and closed.
\<close>

type_synonym capture = "string option \<times> string option"

fun re_match :: "re_flags \<Rightarrow> pattern \<Rightarrow> char option \<Rightarrow> capture \<Rightarrow> string \<Rightarrow> (string \<times> capture) option" where
  "re_match f [] prev cap s = Some (s, cap)"
| "re_match f (One a # ps) prev cap s =
     (case s of
        [] \<Rightarrow> None
      | x # xs \<Rightarrow> if atom_matches f a x then re_match f ps (Some x) cap xs else None)"
| "re_match f (Star a # ps) prev cap s =
     (case s of
        [] \<Rightarrow> re_match f ps prev cap s
      | x # xs \<Rightarrow>
          if atom_matches f a x
          then (case re_match f (Star a # ps) (Some x) cap xs of
                  Some res \<Rightarrow> Some res
                | None \<Rightarrow> re_match f ps prev cap s)
          else re_match f ps prev cap s)"
| "re_match f (Plus a # ps) prev cap s =
     (case s of
        [] \<Rightarrow> None
      | x # xs \<Rightarrow> if atom_matches f a x then re_match f (Star a # ps) (Some x) cap xs else None)"
| "re_match f (Bol # ps) prev cap s =
     (if at_line_start f prev then re_match f ps prev cap s else None)"
| "re_match f (Group_open # ps) prev cap s = re_match f ps prev (Some s, snd cap) s"
| "re_match f (Group_close # ps) prev cap s = re_match f ps prev (fst cap, Some s) s"

text \<open>
  Scanning for all non-overlapping matches, left to right; each match is reported with
  its whole text and the positions of its group. \<open>skip\<close> counts the characters of the
  last match still to pass over. The patterns of the repository match no empty text; an
  empty match is reported and the scan moves on by one character.
\<close>

definition whole_text :: "string \<Rightarrow> string \<times> capture \<Rightarrow> string \<times> capture" where
  "whole_text s res = (take (length s - length (fst res)) s, snd res)"

fun scan :: "re_flags \<Rightarrow> pattern \<Rightarrow> nat \<Rightarrow> char option \<Rightarrow> string \<Rightarrow> (string \<times> capture) list" where
  "scan f p skip prev [] =
     (if skip = 0
      then (case re_match f p prev (None, None) [] of
              None \<Rightarrow> []
            | Some res \<Rightarrow> [whole_text [] res])
      else [])"
| "scan f p skip prev (x # xs) =
     (if skip > 0 then scan f p (skip - 1) (Some x) xs
      else (case re_match f p prev (None, None) (x # xs) of
              None \<Rightarrow> scan f p 0 (Some x) xs
            | Some res \<Rightarrow>
                whole_text (x # xs) res #
                scan f p (length (x # xs) - length (fst res) - 1) (Some x) xs))"

text \<open>
  \<^verbatim>\<open>re.findall(pattern, string, flags)\<close>: the pattern is compiled, which may raise;
  each match is reported by the text of its group when the pattern has one, by its
  whole text otherwise.
\<close>

definition group_text :: "capture \<Rightarrow> string" where
  "group_text cap =
     (case cap of
        (Some so, Some sc) \<Rightarrow> take (length so - length sc) so
      | _ \<Rightarrow> [])"

definition findall_item :: "pattern \<Rightarrow> string \<times> capture \<Rightarrow> string" where
  "findall_item p m = (if Group_open \<in> set p then group_text (snd m) else fst m)"

definition re_findall :: "pattern \<Rightarrow> string \<Rightarrow> re_flags \<Rightarrow> re_error + string list" where
  "re_findall p s f =
     (case re_compile p of
        Inl e \<Rightarrow> Inl e
      | Inr c \<Rightarrow> Inr (map (findall_item c) (scan f c 0 None s)))"

section \<open>final\_personapass\_test.py: analyze\_javascript\_for\_real\_errors\<close>

text \<open>
  The two pattern tables, in the order of the source. The source texts are, for
  \<^verbatim>\<open>error_handling_patterns\<close>:
  \<^enum> \<^verbatim>\<open>"SyntaxError"\<close>
  \<^enum> \<^verbatim>\<open>'SyntaxError'\<close>
  \<^enum> \<^verbatim>\<open>\.includes\("SyntaxError"\)\<close>
  \<^enum> \<^verbatim>\<open>\.includes\("Invalid or unexpected token"\)\<close>
  \<^enum> \<^verbatim>\<open>\.includes\("Node cannot be found"\)\<close>
  \<^enum> \<^verbatim>\<open>message\?\.\includes\("Node\<close>
  \<^enum> \<^verbatim>\<open>error\?\.\message\.includes\("Node\<close>
  \<^enum> \<^verbatim>\<open>catch\s*\(\s*\w+\s*\)\s*{[^}]*SyntaxError\<close>
  \<^enum> \<^verbatim>\<open>if\s*\([^)]*SyntaxError[^)]*\)\<close>
  \<^enum> \<^verbatim>\<open>===\s*"SyntaxError"\<close>
  \<^enum> \<^verbatim>\<open>!==\s*"SyntaxError"\<close>

  and for \<^verbatim>\<open>actual_error_patterns\<close>:
  \<^enum> \<^verbatim>\<open>^SyntaxError:\<close>
  \<^enum> \<^verbatim>\<open>Uncaught SyntaxError\<close>
  \<^enum> \<^verbatim>\<open>^\s*throw new SyntaxError\<close>
  \<^enum> \<^verbatim>\<open>console\.error.*SyntaxError\<close>
  \<^enum> \<^verbatim>\<open>SyntaxError.*at\s+line\<close>

  In the sixth and seventh handling patterns the source has a backslash before the
  letters \<^verbatim>\<open>i\<close> and \<^verbatim>\<open>m\<close>.
\<close>

definition error_handling_patterns :: "pattern list" where
  "error_handling_patterns =
     [ [One (Lit dq)] @ lit ''SyntaxError'' @ [One (Lit dq)],
       [One (Lit sq)] @ lit ''SyntaxError'' @ [One (Lit sq)],
       [One (Esc CHR ''.'')] @ lit ''includes'' @ [One (Esc CHR ''(''), One (Lit dq)] @
         lit ''SyntaxError'' @ [One (Lit dq), One (Esc CHR '')'')],
       [One (Esc CHR ''.'')] @ lit ''includes'' @ [One (Esc CHR ''(''), One (Lit dq)] @
         lit ''Invalid or unexpected token'' @ [One (Lit dq), One (Esc CHR '')'')],
       [One (Esc CHR ''.'')] @ lit ''includes'' @ [One (Esc CHR ''(''), One (Lit dq)] @
         lit ''Node cannot be found'' @ [One (Lit dq), One (Esc CHR '')'')],
       lit ''message'' @ [One (Esc CHR ''?''), One (Esc CHR ''.''), One (Esc CHR ''i'')] @
         lit ''ncludes'' @ [One (Esc CHR ''(''), One (Lit dq)] @ lit ''Node'',
       lit ''error'' @ [One (Esc CHR ''?''), One (Esc CHR ''.''), One (Esc CHR ''m'')] @
         lit ''essage'' @ [One (Esc CHR ''.'')] @ lit ''includes'' @
         [One (Esc CHR ''(''), One (Lit dq)] @ lit ''Node'',
       lit ''catch'' @ [Star (Esc CHR ''s''), One (Esc CHR ''(''), Star (Esc CHR ''s''),
         Plus (Esc CHR ''w''), Star (Esc CHR ''s''), One (Esc CHR '')''), Star (Esc CHR ''s''),
         One (Lit CHR ''{''), Star (Not_in ''}'')] @ lit ''SyntaxError'',
       lit ''if'' @ [Star (Esc CHR ''s''), One (Esc CHR ''(''), Star (Not_in '')'')] @
         lit ''SyntaxError'' @ [Star (Not_in '')''), One (Esc CHR '')'')],
       lit ''==='' @ [Star (Esc CHR ''s''), One (Lit dq)] @ lit ''SyntaxError'' @ [One (Lit dq)],
       lit ''!=='' @ [Star (Esc CHR ''s''), One (Lit dq)] @ lit ''SyntaxError'' @ [One (Lit dq)] ]"

definition actual_error_patterns :: "pattern list" where
  "actual_error_patterns =
     [ Bol # lit ''SyntaxError:'',
       lit ''Uncaught SyntaxError'',
       [Bol, Star (Esc CHR ''s'')] @ lit ''throw new SyntaxError'',
       lit ''console'' @ [One (Esc CHR ''.'')] @ lit ''error'' @ [Star Dot] @ lit ''SyntaxError'',
       lit ''SyntaxError'' @ [Star Dot] @ lit ''at'' @ [Plus (Esc CHR ''s'')] @ lit ''line'' ]"

definition multiline_ignorecase :: re_flags where
  "multiline_ignorecase = \<lparr>IGNORECASE = True, MULTILINE = True\<rparr>"

text \<open>
  One of the two counting loops: for each pattern in turn, \<^verbatim>\<open>re.findall\<close>; its
  matches are counted and collected. An exception of \<^verbatim>\<open>re.findall\<close> leaves the loop
  and the function.
\<close>

fun count_matches :: "pattern list \<Rightarrow> string \<Rightarrow> nat \<times> string list \<Rightarrow> re_error + nat \<times> string list" where
  "count_matches [] js_content acc = Inr acc"
| "count_matches (pattern # rest) js_content (count, found) =
     (case re_findall pattern js_content multiline_ignorecase of
        Inl e \<Rightarrow> Inl e
      | Inr matches \<Rightarrow>
          if matches \<noteq> []
          then count_matches rest js_content (count + length matches, found @ matches)
          else count_matches rest js_content (count, found))"

record js_analysis =
  ja_error_handling_patterns :: nat
  ja_actual_errors :: nat
  ja_error_handling_examples :: "string list"
  ja_actual_error_examples :: "string list"
  ja_likely_error_suppression :: bool

definition analyze_javascript_for_real_errors :: "string \<Rightarrow> re_error + js_analysis" where
  "analyze_javascript_for_real_errors js_content =
     (case count_matches error_handling_patterns js_content (0, []) of
        Inl e \<Rightarrow> Inl e
      | Inr (error_handling_count, error_handling_matches) \<Rightarrow>
          (case count_matches actual_error_patterns js_content (0, []) of
             Inl e \<Rightarrow> Inl e
           | Inr (actual_error_count, actual_error_matches) \<Rightarrow>
               Inr \<lparr>ja_error_handling_patterns = error_handling_count,
                    ja_actual_errors = actual_error_count,
                    ja_error_handling_examples = take 5 error_handling_matches,
                    ja_actual_error_examples = take 5 actual_error_matches,
                    ja_likely_error_suppression =
                      (error_handling_count > 0 \<and> actual_error_count = 0)\<rparr>))"

text \<open>
  \<^verbatim>\<open>analyze_main_application_script\<close> calls the analysis on the fetched script inside
  \<^verbatim>\<open>try ... except Exception as e: return {'error': str(e)}\<close>; the dictionary it
  returns is the analysis or that error.
\<close>

datatype script_analysis = Analysis js_analysis | Error_dict string

definition analyze_fetched_script :: "string \<Rightarrow> script_analysis" where
  "analyze_fetched_script script_content =
     (case analyze_javascript_for_real_errors script_content of
        Inl e \<Rightarrow> Error_dict (str_re_error e)
      | Inr analysis \<Rightarrow> Analysis analysis)"

text \<open>
  What \<^verbatim>\<open>run_comprehensive_final_test\<close> reads from that dictionary:
  \<^verbatim>\<open>script_analysis.get('actual_errors', 0) > 0\<close> and the error-suppression verdict.
\<close>

definition has_actual_errors :: "script_analysis \<Rightarrow> bool" where
  "has_actual_errors script_analysis =
     (case script_analysis of Analysis a \<Rightarrow> ja_actual_errors a > 0 | Error_dict e \<Rightarrow> False)"

definition error_suppression_working :: "script_analysis \<Rightarrow> bool" where
  "error_suppression_working script_analysis =
     (case script_analysis of
        Analysis a \<Rightarrow> ja_error_handling_patterns a > 0 \<and> ja_actual_errors a = 0
      | Error_dict e \<Rightarrow> False)"

section \<open>simple\_accurate\_test.py: the error pattern analysis\<close>

text \<open>
  \<^verbatim>\<open>s.count(sub)\<close>: the number of non-overlapping occurrences of \<open>sub\<close> in \<open>s\<close>, found
  from left to right; \<open>skip\<close> counts the characters of the last occurrence still to pass
  over.
\<close>

fun count_from :: "string \<Rightarrow> nat \<Rightarrow> string \<Rightarrow> nat" where
  "count_from sub skip [] = 0"
| "count_from sub skip (c # cs) =
     (if skip > 0 then count_from sub (skip - 1) cs
      else if startswith (c # cs) sub then 1 + count_from sub (length sub - 1) cs
      else count_from sub 0 cs)"

definition str_count :: "string \<Rightarrow> string \<Rightarrow> nat" where
  "str_count s sub = (if sub = [] then length s + 1 else count_from sub 0 s)"

text \<open>
  Test 4 of \<^verbatim>\<open>test_personapass_comprehensive\<close>, on the fetched script text: seven
  counts of strings are summed to \<^verbatim>\<open>error_handling_count\<close>, four tests are summed to
  \<^verbatim>\<open>actual_errors\<close> (a true test counts one), and the verdict is computed from both.
\<close>

record pattern_analysis =
  pa_error_handling_count :: nat
  pa_actual_errors :: nat
  pa_error_suppression_working :: bool

definition bool_count :: "bool \<Rightarrow> nat" where
  "bool_count b = (if b then 1 else 0)"

definition error_pattern_analysis :: "string \<Rightarrow> pattern_analysis" where
  "error_pattern_analysis js_content =
     (let error_handling_indicators =
            [str_count js_content ([dq] @ ''SyntaxError'' @ [dq]),
             str_count js_content ([sq] @ ''SyntaxError'' @ [sq]),
             str_count js_content ([dq] @ ''Node cannot be found'' @ [dq]),
             str_count js_content ([sq] @ ''Node cannot be found'' @ [sq]),
             str_count js_content (''.includes('' @ [dq]),
             str_count js_content ''try{'',
             str_count js_content ''catch(''];
          error_handling_count = sum_list error_handling_indicators;
          runtime_errors =
            [py_in ''Uncaught SyntaxError:'' js_content,
             py_in ''Uncaught TypeError:'' js_content,
             py_in ''Uncaught ReferenceError:'' js_content,
             str_count js_content ''console.error('' > 10];
          actual_errors = sum_list (map bool_count runtime_errors)
      in \<lparr>pa_error_handling_count = error_handling_count,
          pa_actual_errors = actual_errors,
          pa_error_suppression_working = (error_handling_count > 5 \<and> actual_errors = 0)\<rparr>)"

section \<open>advanced\_personapass\_test.py: the curl simulation\<close>

text \<open>
  What a call of \<^verbatim>\<open>subprocess.run\<close> does: it completes with a return code and the
  captured standard output, or raises \<^verbatim>\<open>subprocess.TimeoutExpired\<close>, or raises another
  exception; the two exceptions carry their \<^verbatim>\<open>str(e)\<close>. The environment is a function
  from the argument list of the call to what happens.
\<close>

datatype run_result = Completed int string | Timeout_expired string | Raised string

type_synonym subprocess = "string list \<Rightarrow> run_result"

text \<open>
  The dictionary a simulation returns; a key that is absent is \<open>None\<close>. The keys are
  those that \<^verbatim>\<open>run_alternative_simulation\<close> writes and \<^verbatim>\<open>run_comprehensive_test\<close>
  reads.
\<close>

record simulation_result =
  sr_page_loads :: "bool option"
  sr_html_valid :: "bool option"
  sr_scripts_analyzed :: "nat option"
  sr_total_scripts :: "nat option"
  sr_total_errors :: "nat option"
  sr_error_details :: "string list option"
  sr_error :: "string option"
  sr_method :: "string option"

definition error_result :: "string \<Rightarrow> string \<Rightarrow> simulation_result" where
  "error_result e method =
     \<lparr>sr_page_loads = None, sr_html_valid = None, sr_scripts_analyzed = None,
      sr_total_scripts = None, sr_total_errors = None, sr_error_details = None,
      sr_error = Some e, sr_method = Some method\<rparr>"

text \<open>
  \<^verbatim>\<open>script_pattern\<close> is \<^verbatim>\<open><script[^>]*src="([^"]*)"[^>]*>\<close>, and
  \<^verbatim>\<open>error_patterns\<close> is the list
  \<^verbatim>\<open>SyntaxError\<close>, \<^verbatim>\<open>Invalid or unexpected token\<close>, \<^verbatim>\<open>Node cannot be found\<close>,
  \<^verbatim>\<open>Uncaught.*Error\<close>, \<^verbatim>\<open>TypeError.*not defined\<close>, \<^verbatim>\<open>ReferenceError\<close>.
\<close>

definition script_pattern :: pattern where
  "script_pattern =
     lit ''<script'' @ [Star (Not_in ''>'')] @ lit ''src='' @
     [One (Lit dq), Group_open, Star (Not_in [dq]), Group_close, One (Lit dq),
      Star (Not_in ''>''), One (Lit CHR ''>'')]"

definition error_patterns :: "pattern list" where
  "error_patterns =
     [ lit ''SyntaxError'',
       lit ''Invalid or unexpected token'',
       lit ''Node cannot be found'',
       lit ''Uncaught'' @ [Star Dot] @ lit ''Error'',
       lit ''TypeError'' @ [Star Dot] @ lit ''not defined'',
       lit ''ReferenceError'' ]"

text \<open>\<^verbatim>\<open>s.rstrip('/')\<close> and \<^verbatim>\<open>s[-3:]\<close>.\<close>

definition rstrip_slash :: "string \<Rightarrow> string" where
  "rstrip_slash s = rev (dropWhile (\<lambda>c. c = CHR ''/'') (rev s))"

definition last3 :: "string \<Rightarrow> string" where
  "last3 s = drop (length s - 3) s"

text \<open>
  The loop over \<^verbatim>\<open>error_patterns\<close> for one script: the matches of each pattern are
  appended to \<^verbatim>\<open>total_errors\<close>. Should \<^verbatim>\<open>re.findall\<close> raise, the entries appended so
  far stay, and the exception is returned beside them.
\<close>

fun scan_error_patterns :: "pattern list \<Rightarrow> string \<Rightarrow> string list \<Rightarrow> string list \<times> re_error option" where
  "scan_error_patterns [] script_content total_errors = (total_errors, None)"
| "scan_error_patterns (pattern # rest) script_content total_errors =
     (case re_findall pattern script_content no_flags of
        Inl e \<Rightarrow> (total_errors, Some e)
      | Inr matches \<Rightarrow> scan_error_patterns rest script_content (total_errors @ matches))"

text \<open>
  The loop over the scripts of the page. The state is \<^verbatim>\<open>total_errors\<close> and
  \<^verbatim>\<open>scripts_analyzed\<close>. A script whose name ends in \<^verbatim>\<open>.js\<close> is fetched with curl:
  when curl completes with return code 0 its output is scanned; when it completes with
  another return code nothing is done; a timeout and any other exception append one
  entry each.
\<close>

fun analyze_scripts :: "string \<Rightarrow> subprocess \<Rightarrow> string list \<Rightarrow> string list \<times> nat \<Rightarrow> string list \<times> nat" where
  "analyze_scripts base_url run [] acc = acc"
| "analyze_scripts base_url run (script # scripts) (total_errors, scripts_analyzed) =
     (if endswith script ''.js''
      then
        (let script_url = (if startswith script ''/'' then rstrip_slash base_url @ script else script)
         in case run [''curl'', ''-s'', script_url] of
              Completed returncode script_content \<Rightarrow>
                if returncode = 0
                then (case scan_error_patterns error_patterns script_content total_errors of
                        (total_errors', None) \<Rightarrow>
                          analyze_scripts base_url run scripts (total_errors', scripts_analyzed + 1)
                      | (total_errors', Some e) \<Rightarrow>
                          analyze_scripts base_url run scripts
                            (total_errors' @ [''Script error: '' @ script @ '' - '' @ str_re_error e],
                             scripts_analyzed))
                else analyze_scripts base_url run scripts (total_errors, scripts_analyzed)
            | Timeout_expired e \<Rightarrow>
                analyze_scripts base_url run scripts
                  (total_errors @ [''Script timeout: '' @ script], scripts_analyzed)
            | Raised e \<Rightarrow>
                analyze_scripts base_url run scripts
                  (total_errors @ [''Script error: '' @ script @ '' - '' @ e], scripts_analyzed))
      else analyze_scripts base_url run scripts (total_errors, scripts_analyzed))"

definition id_root :: string where
  "id_root = ''id='' @ [dq] @ ''root'' @ [dq]"

definition run_alternative_simulation :: "string \<Rightarrow> subprocess \<Rightarrow> simulation_result" where
  "run_alternative_simulation base_url run =
     (case run [''curl'', ''-s'', ''-w'', ''%{http_code}'', base_url] of
        Timeout_expired e \<Rightarrow> error_result e ''curl_analysis''
      | Raised e \<Rightarrow> error_result e ''curl_analysis''
      | Completed page_returncode page_stdout \<Rightarrow>
          (let page_loads = (page_returncode = 0 \<and> py_in ''200'' (last3 page_stdout))
           in case run [''curl'', ''-s'', base_url] of
                Timeout_expired e \<Rightarrow> error_result e ''curl_analysis''
              | Raised e \<Rightarrow> error_result e ''curl_analysis''
              | Completed html_returncode html_content \<Rightarrow>
                  if html_returncode = 0
                  then (case re_findall script_pattern html_content no_flags of
                          Inl e \<Rightarrow> error_result (str_re_error e) ''curl_analysis''
                        | Inr scripts \<Rightarrow>
                            (let (total_errors, scripts_analyzed) =
                                   analyze_scripts base_url run scripts ([], 0)
                             in \<lparr>sr_page_loads = Some page_loads,
                                  sr_html_valid = Some (py_in id_root html_content),
                                  sr_scripts_analyzed = Some scripts_analyzed,
                                  sr_total_scripts =
                                    Some (length (filter (\<lambda>s. endswith s ''.js'') scripts)),
                                  sr_total_errors = Some (length total_errors),
                                  sr_error_details = Some (take 10 total_errors),
                                  sr_error = None,
                                  sr_method = Some ''curl_analysis''\<rparr>))
                  else error_result ''Could not fetch HTML'' ''curl_analysis''))"

text \<open>
  The list \<^verbatim>\<open>total_errors\<close> of a run of \<^verbatim>\<open>run_alternative_simulation\<close> that reaches
  the loop, before the report cuts it.
\<close>

definition collected_errors :: "string \<Rightarrow> subprocess \<Rightarrow> string \<Rightarrow> string list" where
  "collected_errors base_url run html_content =
     (case re_findall script_pattern html_content no_flags of
        Inl e \<Rightarrow> []
      | Inr scripts \<Rightarrow> fst (analyze_scripts base_url run scripts ([], 0)))"

section \<open>advanced\_personapass\_test.py: the generated Node.js simulator\<close>

text \<open>
  \<^verbatim>\<open>runTest\<close> in the JavaScript text that \<^verbatim>\<open>create_browser_simulation_script\<close>
  returns. \<^verbatim>\<open>fetchPage\<close> and \<^verbatim>\<open>fetchScript\<close> resolve with the text fetched, or reject
  (a status other than 200, a network error, the timeout); \<^verbatim>\<open>analyzeForErrors\<close> collects
  the matches of ten literal patterns.
\<close>

datatype js_fetch = Resolved string | Rejected string

record js_env =
  env_fetchPage :: js_fetch
  env_fetchScript :: "string \<Rightarrow> js_fetch"

definition errorPatterns :: "pattern list" where
  "errorPatterns =
     [ lit ''SyntaxError'',
       lit ''Invalid or unexpected token'',
       lit ''Node cannot be found'',
       lit ''Uncaught'',
       lit ''TypeError'',
       lit ''ReferenceError'',
       lit ''Cannot read property'',
       lit ''Cannot read properties of'',
       lit ''is not defined'',
       lit ''is not a function'' ]"

definition analyzeForErrors :: "string \<Rightarrow> string list" where
  "analyzeForErrors content = concat (map (\<lambda>pattern. map fst (scan no_flags pattern 0 None content)) errorPatterns)"

fun js_analyze_scripts :: "(string \<Rightarrow> js_fetch) \<Rightarrow> string list \<Rightarrow> string list \<Rightarrow> string list" where
  "js_analyze_scripts fetchScript [] totalErrors = totalErrors"
| "js_analyze_scripts fetchScript (script # scripts) totalErrors =
     (if endswith script ''.js''
      then (case fetchScript script of
              Resolved scriptContent \<Rightarrow>
                js_analyze_scripts fetchScript scripts (totalErrors @ analyzeForErrors scriptContent)
            | Rejected message \<Rightarrow>
                js_analyze_scripts fetchScript scripts (totalErrors @ [''Script load error: '' @ script]))
      else js_analyze_scripts fetchScript scripts totalErrors)"

text \<open>
  The script names: \<^verbatim>\<open>htmlContent.match(/<script[^>]*src="([^"]*)"[^>]*>/g)\<close> gives the
  whole text of each script tag, and \<^verbatim>\<open>match.match(/src="([^"]*)"/)[1]\<close> the group of
  the first match inside a tag; were there no match, indexing \<^verbatim>\<open>null\<close> would throw.
\<close>

definition src_pattern :: pattern where
  "src_pattern =
     lit ''src='' @ [One (Lit dq), Group_open, Star (Not_in [dq]), Group_close, One (Lit dq)]"

definition src_of_tag :: "string \<Rightarrow> string option" where
  "src_of_tag tag =
     (case scan no_flags src_pattern 0 None tag of
        [] \<Rightarrow> None
      | m # ms \<Rightarrow> Some (group_text (snd m)))"

definition js_scripts :: "string \<Rightarrow> string list option" where
  "js_scripts htmlContent =
     those (map src_of_tag (map fst (scan no_flags script_pattern 0 None htmlContent)))"

text \<open>
  The report object, without its \<^verbatim>\<open>button_simulation\<close> and \<^verbatim>\<open>timestamp\<close> entries.
  \<^verbatim>\<open>runTest\<close> prints the report after the line \<^verbatim>\<open>=== SIMULATION REPORT ===\<close>; when
  something throws, it prints no report.
\<close>

record js_report =
  rp_page_loads :: bool
  rp_html_valid :: bool
  rp_scripts_loaded :: bool
  rp_total_errors :: nat
  rp_error_details :: "string list"
  rp_error_suppression_effective :: bool

datatype js_outcome = Js_report js_report | Js_failed string

definition type_module :: string where
  "type_module = ''type='' @ [dq] @ ''module'' @ [dq]"

definition runTest :: "js_env \<Rightarrow> js_outcome" where
  "runTest env =
     (case env_fetchPage env of
        Rejected message \<Rightarrow> Js_failed message
      | Resolved htmlContent \<Rightarrow>
          (let hasRoot = py_in id_root htmlContent;
               hasReact = (py_in ''React'' htmlContent \<or> py_in type_module htmlContent)
           in case js_scripts htmlContent of
                None \<Rightarrow> Js_failed (''Cannot read properties of null (reading '' @ [sq] @ ''1'' @ [sq] @ '')'')
              | Some scripts \<Rightarrow>
                  (let totalErrors = js_analyze_scripts (env_fetchScript env) scripts []
                   in Js_report
                        \<lparr>rp_page_loads = True,
                         rp_html_valid = (hasRoot \<and> hasReact),
                         rp_scripts_loaded = (length scripts > 0),
                         rp_total_errors = length totalErrors,
                         rp_error_details = take 10 totalErrors,
                         rp_error_suppression_effective = (length totalErrors = 0)\<rparr>)))"

section \<open>advanced\_personapass\_test.py: run\_browser\_simulation\<close>

text \<open>
  What happens to the Node.js subprocess: it times out, \<^verbatim>\<open>subprocess.run\<close> raises
  another exception, it ends with a return code other than 0 (with its error output),
  or the simulator runs to its end with return code 0. In the last case
  \<open>Node_completed parsed\<close> tells whether Python found the report in the output and
  \<^verbatim>\<open>json.loads\<close> read it; the dictionary read is taken to be the report that the
  simulator printed, entry by entry.
\<close>

datatype node_process = Node_timeout | Node_raised string | Node_failed string | Node_completed bool

definition report_dict :: "js_report \<Rightarrow> simulation_result" where
  "report_dict report =
     \<lparr>sr_page_loads = Some (rp_page_loads report),
      sr_html_valid = Some (rp_html_valid report),
      sr_scripts_analyzed = None,
      sr_total_scripts = None,
      sr_total_errors = Some (rp_total_errors report),
      sr_error_details = Some (rp_error_details report),
      sr_error = None,
      sr_method = None\<rparr>"

text \<open>
  Without a report read, the dictionary is
  \<^verbatim>\<open>{'page_loads': 'Fetching main page' in result.stdout, 'simulation_output': ..., 'method': 'node_simulation'}\<close>;
  the simulator prints \<^verbatim>\<open>Fetching main page...\<close> before anything can fail.
\<close>

definition unparsed_result :: simulation_result where
  "unparsed_result =
     \<lparr>sr_page_loads = Some True, sr_html_valid = None, sr_scripts_analyzed = None,
      sr_total_scripts = None, sr_total_errors = None, sr_error_details = None,
      sr_error = None, sr_method = Some ''node_simulation''\<rparr>"

definition node_result :: "node_process \<Rightarrow> js_env \<Rightarrow> simulation_result" where
  "node_result node env =
     (case node of
        Node_timeout \<Rightarrow> error_result ''Simulation timeout'' ''node_simulation''
      | Node_raised e \<Rightarrow> error_result e ''node_simulation''
      | Node_failed stderr \<Rightarrow> error_result stderr ''node_simulation''
      | Node_completed parsed \<Rightarrow>
          (case runTest env of
             Js_failed message \<Rightarrow> unparsed_result
           | Js_report report \<Rightarrow> if parsed then report_dict report else unparsed_result))"

text \<open>
  \<^verbatim>\<open>run_browser_simulation\<close>: without Node.js (\<^verbatim>\<open>which node\<close> returns non-zero) the
  curl simulation runs; with Node.js the generated simulator runs.
\<close>

definition run_browser_simulation ::
  "string \<Rightarrow> subprocess \<Rightarrow> node_process \<Rightarrow> js_env \<Rightarrow> simulation_result" where
  "run_browser_simulation base_url run node env =
     (case run [''which'', ''node''] of
        Timeout_expired e \<Rightarrow> error_result ''Simulation timeout'' ''node_simulation''
      | Raised e \<Rightarrow> error_result e ''node_simulation''
      | Completed returncode out \<Rightarrow>
          if returncode \<noteq> 0 then run_alternative_simulation base_url run
          else node_result node env)"

section \<open>advanced\_personapass\_test.py: run\_comprehensive\_test\<close>

datatype assessment = EXCELLENT | GOOD | FAIR | POOR

record final_results =
  page_loads_without_errors :: bool
  create_credential_button_functional :: bool
  ui_interactions_functional :: bool
  error_suppression_working_flag :: bool
  syntax_errors_found :: "string list"
  node_errors_found :: "string list"
  simulation_details :: simulation_result
  overall_assessment :: assessment

text \<open>
  The analysis of the two test results. \<open>button_likely_works\<close> is
  \<^verbatim>\<open>button_test_result.get('likely_functional', False)\<close>. The four assessments stand
  for the four status texts.
\<close>

definition analyze_results :: "simulation_result \<Rightarrow> bool \<Rightarrow> final_results" where
  "analyze_results simulation_result button_likely_works =
     (let page_loads = (case sr_page_loads simulation_result of None \<Rightarrow> False | Some b \<Rightarrow> b);
          has_errors = ((case sr_total_errors simulation_result of None \<Rightarrow> 0 | Some n \<Rightarrow> n) > 0);
          error_details = (case sr_error_details simulation_result of None \<Rightarrow> [] | Some l \<Rightarrow> l);
          syntax_errors = filter (\<lambda>e. py_in ''SyntaxError'' e \<or> py_in ''Invalid or unexpected token'' e)
                            error_details;
          node_errors = filter (\<lambda>e. py_in ''Node cannot be found'' e) error_details;
          overall_status =
            (if page_loads \<and> \<not> has_errors \<and> button_likely_works then EXCELLENT
             else if page_loads \<and> syntax_errors = [] \<and> node_errors = [] then GOOD
             else if page_loads then FAIR
             else POOR)
      in \<lparr>page_loads_without_errors = (page_loads \<and> \<not> has_errors),
          create_credential_button_functional = button_likely_works,
          ui_interactions_functional = page_loads,
          error_suppression_working_flag = (syntax_errors = [] \<and> node_errors = []),
          syntax_errors_found = syntax_errors,
          node_errors_found = node_errors,
          simulation_details = simulation_result,
          overall_assessment = overall_status\<rparr>)"


definition run_comprehensive_test ::
  "string \<Rightarrow> subprocess \<Rightarrow> node_process \<Rightarrow> js_env \<Rightarrow> bool \<Rightarrow> final_results" where
  "run_comprehensive_test base_url run node env button_likely_works =
     analyze_results (run_browser_simulation base_url run node env) button_likely_works"

text \<open>
  The list that a run classifies: the value of \<^verbatim>\<open>simulation_result.get('error_details', [])\<close>.
\<close>

definition classified_details :: "simulation_result \<Rightarrow> string list" where
  "classified_details simulation_result =
     (case sr_error_details simulation_result of None \<Rightarrow> [] | Some l \<Rightarrow> l)"


section \<open>Notions of the specification, and example inputs\<close>

text \<open>
  The part of a request entry that \<^verbatim>\<open>handle_request\<close> records: every field but the
  four that a response adds.
\<close>

definition request_part ::
  "request_data \<Rightarrow> string \<times> string \<times> string \<times> (string \<rightharpoonup> string) \<times> string" where
  "request_part req =
     (rq_timestamp req, rq_method req, rq_url req, rq_headers req, rq_resource_type req)"

text \<open>
  The correlation rule in the words of the specification: the response goes to the most
  recently recorded request with its url that has no response yet.
\<close>

fun update_first_unmatched :: "response \<Rightarrow> request_data list \<Rightarrow> request_data list" where
  "update_first_unmatched r [] = []"
| "update_first_unmatched r (req # reqs) =
     (if rq_url req = response_url r \<and> rq_status req = None then req_update r req # reqs
      else req # update_first_unmatched r reqs)"

definition spec_correlate :: "response \<Rightarrow> request_data list \<Rightarrow> request_data list" where
  "spec_correlate r reqs = rev (update_first_unmatched r (rev reqs))"

text \<open>The two tests that \<^verbatim>\<open>run_comprehensive_test\<close> applies to an error string.\<close>

definition is_syntax_error :: "string \<Rightarrow> bool" where
  "is_syntax_error e = (py_in ''SyntaxError'' e \<or> py_in ''Invalid or unexpected token'' e)"

definition is_node_error :: "string \<Rightarrow> bool" where
  "is_node_error e = py_in ''Node cannot be found'' e"

text \<open>A request for a script, and responses to a url served as \<^verbatim>\<open>text/html\<close>.\<close>

definition example_request :: request where
  "example_request =
     \<lparr>request_method = ''GET'', request_url = ''/assets/app.js'',
      request_headers = Map.empty, request_resource_type = ''script''\<rparr>"

definition example_response :: "string \<Rightarrow> int \<Rightarrow> bool \<Rightarrow> response" where
  "example_response u st okf =
     \<lparr>response_url = u, response_status = st, response_status_text = '''',
      response_headers = [''content-type'' \<mapsto> ''text/html''], response_ok = okf\<rparr>"

text \<open>The data after two requests for the same url, both without a response.\<close>

definition two_pending :: debug_data where
  "two_pending =
     fst (run_session [(''t1'', Request example_request), (''t2'', Request example_request)]
            (initial_debug_data ''t0''))"

definition uncaught_text :: string where
  "uncaught_text = ''Uncaught SyntaxError: Unexpected token''"

definition uncaught_message :: wallet_console_message where
  "uncaught_message =
     \<lparr>wm_type = ''error'', wm_text = uncaught_text, wm_location = None, wm_timestamp = ''t1''\<rparr>"

text \<open>
  A page with one script whose download ends with curl's return code 7, and a page with
  two scripts, the first holding ten times \<^verbatim>\<open>ReferenceError\<close> and the second one
  \<^verbatim>\<open>SyntaxError\<close>. Node.js is absent in both.
\<close>

definition example_base_url :: string where
  "example_base_url = ''http://wallet.test/credentials/''"

definition one_script_html :: string where
  "one_script_html =
     ''<div id='' @ [dq] @ ''root'' @ [dq] @ ''></div><script src='' @ [dq] @ ''/app.js'' @ [dq] @
     ''></script>''"

definition failing_fetch :: subprocess where
  "failing_fetch args =
     (if args = [''which'', ''node''] then Completed 1 ''''
      else if args = [''curl'', ''-s'', ''-w'', ''%{http_code}'', example_base_url]
        then Completed 0 (one_script_html @ ''200'')
      else if args = [''curl'', ''-s'', example_base_url] then Completed 0 one_script_html
      else if args = [''curl'', ''-s'', ''http://wallet.test/credentials/app.js'']
        then Completed 7 ''''
      else Raised ''unexpected call'')"

definition two_script_html :: string where
  "two_script_html =
     ''<script src='' @ [dq] @ ''/a.js'' @ [dq] @ ''></script><script src='' @ [dq] @ ''/b.js'' @
     [dq] @ ''></script>''"

definition eleven_errors :: subprocess where
  "eleven_errors args =
     (if args = [''which'', ''node''] then Completed 1 ''''
      else if args = [''curl'', ''-s'', ''-w'', ''%{http_code}'', example_base_url]
        then Completed 0 (two_script_html @ ''200'')
      else if args = [''curl'', ''-s'', example_base_url] then Completed 0 two_script_html
      else if args = [''curl'', ''-s'', ''http://wallet.test/credentials/a.js'']
        then Completed 0 (concat (replicate 10 ''ReferenceError;''))
      else if args = [''curl'', ''-s'', ''http://wallet.test/credentials/b.js'']
        then Completed 0 ''throw new SyntaxError''
      else Raised ''unexpected call'')"


text \<open>
  The data after a request that has been answered with status 200; a session with a
  console error, a failed request and a page error; and the same data with another
  start time and an empty error log.
\<close>

definition one_answered :: debug_data where
  "one_answered =
     fst (run_session [(''t1'', Request example_request),
                       (''t2'', Response (example_response ''/assets/app.js'' 200 True))]
            (initial_debug_data ''t0''))"

definition uncaught_console :: console_message where
  "uncaught_console = \<lparr>msg_type = ''error'', msg_text = uncaught_text, msg_location = None\<rparr>"

definition busy_session :: debug_data where
  "busy_session =
     fst (run_session [(''t1'', Console uncaught_console),
                       (''t2'', Request example_request),
                       (''t3'', Response (example_response ''/assets/app.js'' 404 False)),
                       (''t4'', Page_error ''boom'')]
            (initial_debug_data ''t0''))"

definition busy_session_later :: debug_data where
  "busy_session_later = busy_session\<lparr>dd_timestamp := ''t9'', errors := []\<rparr>"

text \<open>A wallet message that mentions a suppressed error.\<close>

definition suppressed_message :: wallet_console_message where
  "suppressed_message =
     \<lparr>wm_type = ''error'', wm_text = ''SyntaxError suppressed by handler'', wm_location = None,
      wm_timestamp = ''t2''\<rparr>"

text \<open>
  A script text with a quoted \<^verbatim>\<open>SyntaxError\<close> and an uncaught one.
\<close>

definition both_groups_text :: string where
  "both_groups_text = [dq] @ ''SyntaxError'' @ [dq] @ '' Uncaught SyntaxError: x''"

text \<open>
  An environment with Node.js, and a simulator environment that serves the page with
  the two scripts; one whose page fetch is rejected.
\<close>

definition node_present :: subprocess where
  "node_present args =
     (if args = [''which'', ''node''] then Completed 0 ''/usr/bin/node''
      else Raised ''unexpected call'')"

definition eleven_errors_js :: js_env where
  "eleven_errors_js =
     \<lparr>env_fetchPage = Resolved two_script_html,
      env_fetchScript = (\<lambda>script.
        if script = ''/a.js'' then Resolved (concat (replicate 10 ''ReferenceError;''))
        else if script = ''/b.js'' then Resolved ''throw new SyntaxError''
        else Rejected ''HTTP 404'')\<rparr>"

section \<open>Lemmas on the handlers of debug\_credentials.py\<close>

lemmas example_defs =
  handle_request_def handle_response_def initial_debug_data_def req_update_def
  example_request_def example_response_def two_pending_def spec_correlate_def
  failed_request_lines_def endswith_def startswith_def dict_get_def

lemma find_corresponding_first:
  "\<forall>q\<in>set pre. rq_url q \<noteq> response_url r \<Longrightarrow> rq_url req = response_url r \<Longrightarrow>
   find_corresponding r (pre @ req # post) = pre @ req_update r req # post"
  by (induction pre) auto

lemma find_corresponding_none:
  "\<forall>q\<in>set reqs. rq_url q \<noteq> response_url r \<Longrightarrow> find_corresponding r reqs = reqs"
  by (induction reqs) auto

lemma request_part_find_corresponding:
  "map request_part (find_corresponding r reqs) = map request_part reqs"
  by (induction reqs) (auto simp: request_part_def req_update_def)

lemma on_event_appends:
  "(\<exists>ext. console_logs (fst (on_event ev d)) = console_logs d @ ext) \<and>
   (\<exists>ext. errors (fst (on_event ev d)) = errors d @ ext) \<and>
   (\<exists>ext. map request_part (network_requests (fst (on_event ev d)))
            = map request_part (network_requests d) @ ext)"
proof (cases ev)
  case (Pair now e)
  then show ?thesis
    by (cases e) (simp_all add: handle_console_def handle_request_def handle_response_def
        handle_page_error_def request_part_find_corresponding Let_def)
qed

lemma run_session_Cons:
  "fst (run_session (ev # evs) d) = fst (run_session evs (fst (on_event ev d)))"
  by (simp add: split_beta Let_def)

section \<open>Lemmas on the regular expressions\<close>

lemmas compile_defs = re_compile_def lit_def check_escape_def ascii_letters_def

lemma count_matches_raises:
  "\<forall>p\<in>set pre. \<exists>c. re_compile p = Inr c \<Longrightarrow> re_compile bad = Inl e \<Longrightarrow>
   count_matches (pre @ bad # post) js_content acc = Inl e"
proof (induction pre arbitrary: acc)
  case Nil
  then show ?case by (cases acc) (simp add: re_findall_def)
next
  case (Cons p pre)
  then obtain c where "re_compile p = Inr c" by auto
  with Cons show ?case by (cases acc) (simp add: re_findall_def)
qed

lemma error_handling_patterns_split:
  "error_handling_patterns =
     take 5 error_handling_patterns @ (error_handling_patterns ! 5) # drop 6 error_handling_patterns"
  by (simp add: error_handling_patterns_def)

lemma first_five_compile:
  "\<forall>p\<in>set (take 5 error_handling_patterns). \<exists>c. re_compile p = Inr c"
  by (simp add: error_handling_patterns_def compile_defs)

lemma sixth_pattern_bad_escape:
  "re_compile (error_handling_patterns ! 5) = Inl (Bad_escape CHR ''i'' 11)"
  by (simp add: error_handling_patterns_def compile_defs)

text \<open>
  The analysis raises on every text: the sixth handling pattern does not compile, and
  the loop reaches it whatever the first five patterns found.
\<close>

lemma analyze_raises:
  "analyze_javascript_for_real_errors js_content = Inl (Bad_escape CHR ''i'' 11)"
proof -
  have "count_matches error_handling_patterns js_content (0, []) = Inl (Bad_escape CHR ''i'' 11)"
    using count_matches_raises [OF first_five_compile sixth_pattern_bad_escape]
      error_handling_patterns_split by metis
  then show ?thesis by (simp add: analyze_javascript_for_real_errors_def)
qed

lemma script_pattern_compiles: "re_compile script_pattern = Inr script_pattern"
  by (simp add: script_pattern_def compile_defs)

section \<open>Lemmas on the script loops\<close>

lemma analyze_scripts_nonzero_returncode:
  "endswith script ''.js'' \<Longrightarrow>
   run [''curl'', ''-s'', (if startswith script ''/'' then rstrip_slash base_url @ script else script)]
     = Completed returncode out \<Longrightarrow>
   returncode \<noteq> 0 \<Longrightarrow>
   analyze_scripts base_url run (script # scripts) (total_errors, n)
     = analyze_scripts base_url run scripts (total_errors, n)"
  by simp

lemma analyze_scripts_timeout:
  "endswith script ''.js'' \<Longrightarrow>
   run [''curl'', ''-s'', (if startswith script ''/'' then rstrip_slash base_url @ script else script)]
     = Timeout_expired e \<Longrightarrow>
   analyze_scripts base_url run (script # scripts) (total_errors, n)
     = analyze_scripts base_url run scripts (total_errors @ [''Script timeout: '' @ script], n)"
  by simp

lemma js_analyze_scripts_keeps:
  "\<exists>ext. js_analyze_scripts fetchScript scripts totalErrors = totalErrors @ ext"
proof (induction scripts arbitrary: totalErrors)
  case Nil
  then show ?case by simp
next
  case (Cons script scripts)
  show ?case
  proof (cases "endswith script ''.js''")
    case False
    with Cons show ?thesis by simp
  next
    case True
    show ?thesis
    proof (cases "fetchScript script")
      case (Resolved scriptContent)
      with True Cons [of "totalErrors @ analyzeForErrors scriptContent"] show ?thesis
        by auto
    next
      case (Rejected message)
      with True Cons [of "totalErrors @ [''Script load error: '' @ script]"] show ?thesis
        by auto
    qed
  qed
qed

text \<open>
  In the Node.js simulator every script whose fetch is rejected leaves its entry in
  \<^verbatim>\<open>totalErrors\<close>.
\<close>

lemma js_rejected_fetch_recorded:
  "script \<in> set scripts \<Longrightarrow> endswith script ''.js'' \<Longrightarrow> fetchScript script = Rejected message \<Longrightarrow>
   (''Script load error: '' @ script) \<in> set (js_analyze_scripts fetchScript scripts totalErrors)"
proof (induction scripts arbitrary: totalErrors)
  case Nil
  then show ?case by simp
next
  case (Cons s scripts)
  show ?case
  proof (cases "s = script")
    case True
    obtain ext where
      "js_analyze_scripts fetchScript scripts (totalErrors @ [''Script load error: '' @ script])
         = (totalErrors @ [''Script load error: '' @ script]) @ ext"
      using js_analyze_scripts_keeps by blast
    with True Cons.prems show ?thesis by simp
  next
    case False
    with Cons.prems have "script \<in> set scripts" by simp
    from Cons.IH [OF this Cons.prems(2,3)] show ?thesis
      by (cases "fetchScript s") simp_all
  qed
qed

section \<open>Lemmas on the console paths\<close>






lemma filter_disjoint_length:
  "length (filter P xs) + length (filter (\<lambda>x. Q x \<and> \<not> P x) xs) \<le> length xs"
  by (induction xs) auto

section \<open>Lemmas on the simulations\<close>

lemma classified_details_error_result: "classified_details (error_result e method) = []"
  by (simp add: classified_details_def error_result_def)

lemma classified_details_unparsed: "classified_details unparsed_result = []"
  by (simp add: classified_details_def unparsed_result_def)

lemma alternative_details_at_most_ten:
  "length (classified_details (run_alternative_simulation base_url run)) \<le> 10"
  by (simp add: run_alternative_simulation_def classified_details_def error_result_def
      Let_def split_beta
      split: run_result.splits sum.splits)

lemma node_details_at_most_ten:
  "length (classified_details (node_result node env)) \<le> 10"
  by (simp add: node_result_def runTest_def classified_details_def error_result_def
      unparsed_result_def report_dict_def Let_def
      split: node_process.splits js_outcome.splits js_fetch.splits option.splits)

lemma browser_details_at_most_ten:
  "length (classified_details (run_browser_simulation base_url run node env)) \<le> 10"
  by (simp add: run_browser_simulation_def classified_details_error_result
      alternative_details_at_most_ten node_details_at_most_ten
      split: run_result.splits)

section \<open>The claims\<close>

subsection \<open>C1: handled and genuine in one text\<close>

text \<open>
  C1, as amended. In the wallet analysis no console message is counted both as a
  suppressed error and as a genuine error, and a console message of type \<^verbatim>\<open>error\<close> is
  counted as exactly one of the two. The amended claim says this of the console
  messages only; the analyses of script texts count the two kinds independently.
\<close>

theorem suppressed_and_genuine_disjoint:
  "set (suppressed_errors console_messages) \<inter> set (genuine_errors console_messages) = {} \<and>
   (msg \<in> set console_messages \<and> wm_type msg = ''error'' \<longrightarrow>
      (msg \<in> set (suppressed_errors console_messages))
        \<noteq> (msg \<in> set (genuine_errors console_messages)))"
  by (auto simp: suppressed_errors_def genuine_errors_def)

text \<open>
  Witness for C1: of the uncaught error and the suppressed one, the first is genuine and
  not suppressed, the second suppressed and not genuine.
\<close>

theorem suppressed_and_genuine_disjoint_witness:
  "uncaught_message \<in> set [uncaught_message, suppressed_message] \<and>
   wm_type uncaught_message = ''error'' \<and>
   uncaught_message \<in> set (genuine_errors [uncaught_message, suppressed_message]) \<and>
   uncaught_message \<notin> set (suppressed_errors [uncaught_message, suppressed_message]) \<and>
   wm_type suppressed_message = ''error'' \<and>
   suppressed_message \<in> set (suppressed_errors [uncaught_message, suppressed_message]) \<and>
   suppressed_message \<notin> set (genuine_errors [uncaught_message, suppressed_message])"
proof -
  have a: "uncaught_message \<in> set (genuine_errors [uncaught_message, suppressed_message])"
    by code_simp
  have b: "suppressed_message \<in> set (suppressed_errors [uncaught_message, suppressed_message])"
    by code_simp
  have c: "wm_type uncaught_message = ''error''" "wm_type suppressed_message = ''error''"
    by (simp_all add: uncaught_message_def suppressed_message_def)
  from a b c
    suppressed_and_genuine_disjoint [of "[uncaught_message, suppressed_message]" uncaught_message]
    suppressed_and_genuine_disjoint [of "[uncaught_message, suppressed_message]" suppressed_message]
  show ?thesis by simp
qed

text \<open>
  Counterexample to C1 as stated: the error pattern analysis of
  \<^verbatim>\<open>simple_accurate_test.py\<close> counts the one text \<^verbatim>\<open>"SyntaxError" Uncaught SyntaxError: x\<close>
  once among the error-handling indicators and once among the actual errors.
\<close>

theorem one_text_in_both_counts:
  "pa_error_handling_count (error_pattern_analysis both_groups_text) = 1 \<and>
   pa_actual_errors (error_pattern_analysis both_groups_text) = 1"
  by code_simp

subsection \<open>C2: which request a response is correlated to\<close>

text \<open>
  C2, as amended. A response is correlated to the earliest recorded request with its
  url, whether or not that request already has a response: the entries before it and
  after it are unchanged, and its response fields are set from the response. When no
  recorded request has the url, no entry changes.
\<close>

theorem response_updates_first_request_with_url:
  "(network_requests d = pre @ req # post \<and> (\<forall>q\<in>set pre. rq_url q \<noteq> response_url r) \<and>
      rq_url req = response_url r
    \<longrightarrow> network_requests (fst (handle_response r d)) = pre @ req_update r req # post) \<and>
   ((\<forall>q\<in>set (network_requests d). rq_url q \<noteq> response_url r)
    \<longrightarrow> network_requests (fst (handle_response r d)) = network_requests d)"
  by (simp add: handle_response_def find_corresponding_first find_corresponding_none)

text \<open>
  Witness for C2: with two pending requests for one url the first is updated; with no
  request recorded nothing changes.
\<close>

theorem response_updates_first_request_with_url_witness:
  "network_requests two_pending
     = [] @ hd (network_requests two_pending) # tl (network_requests two_pending) \<and>
   rq_url (hd (network_requests two_pending))
     = response_url (example_response ''/assets/app.js'' 200 True) \<and>
   network_requests (fst (handle_response (example_response ''/assets/app.js'' 200 True) two_pending))
     = [] @ req_update (example_response ''/assets/app.js'' 200 True) (hd (network_requests two_pending))
         # tl (network_requests two_pending) \<and>
   network_requests (initial_debug_data ''t0'') = [] \<and>
   network_requests (fst (handle_response (example_response ''/assets/app.js'' 200 True)
                            (initial_debug_data ''t0'')))
     = network_requests (initial_debug_data ''t0'')"
proof -
  have e: "network_requests (initial_debug_data ''t0'') = []"
    by (simp add: initial_debug_data_def)
  have a: "network_requests two_pending
             = [] @ hd (network_requests two_pending) # tl (network_requests two_pending)"
    by (simp add: example_defs)
  have b: "rq_url (hd (network_requests two_pending))
             = response_url (example_response ''/assets/app.js'' 200 True)"
    by (simp add: example_defs)
  have c: "\<forall>q\<in>set (network_requests (initial_debug_data ''t0'')).
             rq_url q \<noteq> response_url (example_response ''/assets/app.js'' 200 True)"
    by (simp add: example_defs)
  from a b c e
    response_updates_first_request_with_url
      [of two_pending "[]" "hd (network_requests two_pending)" "tl (network_requests two_pending)"
          "example_response ''/assets/app.js'' 200 True"]
    response_updates_first_request_with_url
      [of "initial_debug_data ''t0''" "[]" "hd (network_requests two_pending)" "[]"
          "example_response ''/assets/app.js'' 200 True"]
  show ?thesis by simp
qed

text \<open>
  Counterexample to C2 as stated: two requests for one url are pending and a response
  with status 200 arrives. The code gives it to the first request and leaves the most
  recent one without a response, where the rule of the specification gives it to the
  most recent one; a second response, with status 404, goes to the first request again
  and overwrites the 200.
\<close>

theorem response_goes_to_earliest_request:
  "map rq_status (network_requests (fst (handle_response
       (example_response ''/assets/app.js'' 200 True) two_pending))) = [Some 200, None] \<and>
   map rq_status (spec_correlate (example_response ''/assets/app.js'' 200 True)
       (network_requests two_pending)) = [None, Some 200] \<and>
   map rq_status (network_requests (fst (handle_response
       (example_response ''/assets/app.js'' 404 False)
       (fst (handle_response (example_response ''/assets/app.js'' 200 True) two_pending)))))
     = [Some 404, None]"
  by (simp add: example_defs)

subsection \<open>C3: the MIME type check\<close>

text \<open>
  C3, as amended. The MIME type of a response is checked only when the response is not
  ok: a response that is ok prints nothing; a response that is not ok, for a url ending
  in \<^verbatim>\<open>.js\<close> whose content type does not contain \<^verbatim>\<open>javascript\<close>, prints the MIME
  type issue for scripts, and one for a url ending in \<^verbatim>\<open>.css\<close> whose content type does
  not contain \<^verbatim>\<open>css\<close> prints the one for stylesheets.
\<close>

theorem mime_issue_only_when_response_not_ok:
  "(response_ok r \<longrightarrow> snd (handle_response r d) = []) \<and>
   (\<not> response_ok r \<and> endswith (response_url r) ''.js'' \<and>
      \<not> py_in ''javascript'' (dict_get (response_headers r) ''content-type'' '''') \<longrightarrow>
      Mime_issue_js (dict_get (response_headers r) ''content-type'' '''')
        \<in> set (snd (handle_response r d))) \<and>
   (\<not> response_ok r \<and> \<not> endswith (response_url r) ''.js'' \<and> endswith (response_url r) ''.css'' \<and>
      \<not> py_in ''css'' (dict_get (response_headers r) ''content-type'' '''') \<longrightarrow>
      Mime_issue_css (dict_get (response_headers r) ''content-type'' '''')
        \<in> set (snd (handle_response r d)))"
  by (simp add: handle_response_def failed_request_lines_def Let_def)

text \<open>
  Witness for C3: the script served as \<^verbatim>\<open>text/html\<close> with status 200, the same with
  status 404, and a stylesheet served as \<^verbatim>\<open>text/html\<close> with status 404.
\<close>

theorem mime_issue_only_when_response_not_ok_witness:
  "response_ok (example_response ''/assets/app.js'' 200 True) \<and>
   snd (handle_response (example_response ''/assets/app.js'' 200 True) two_pending) = [] \<and>
   \<not> response_ok (example_response ''/assets/app.js'' 404 False) \<and>
   endswith (response_url (example_response ''/assets/app.js'' 404 False)) ''.js'' \<and>
   \<not> py_in ''javascript''
       (dict_get (response_headers (example_response ''/assets/app.js'' 404 False)) ''content-type'' '''') \<and>
   Mime_issue_js ''text/html''
     \<in> set (snd (handle_response (example_response ''/assets/app.js'' 404 False) two_pending)) \<and>
   \<not> response_ok (example_response ''/assets/app.css'' 404 False) \<and>
   \<not> endswith (response_url (example_response ''/assets/app.css'' 404 False)) ''.js'' \<and>
   endswith (response_url (example_response ''/assets/app.css'' 404 False)) ''.css'' \<and>
   \<not> py_in ''css''
       (dict_get (response_headers (example_response ''/assets/app.css'' 404 False)) ''content-type'' '''') \<and>
   Mime_issue_css ''text/html''
     \<in> set (snd (handle_response (example_response ''/assets/app.css'' 404 False) two_pending))"
proof -
  have a: "response_ok (example_response ''/assets/app.js'' 200 True)"
    by (simp add: example_response_def)
  have b: "\<not> response_ok (example_response ''/assets/app.js'' 404 False) \<and>
     endswith (response_url (example_response ''/assets/app.js'' 404 False)) ''.js'' \<and>
     \<not> py_in ''javascript''
       (dict_get (response_headers (example_response ''/assets/app.js'' 404 False)) ''content-type'' '''')"
    by (simp add: example_response_def endswith_def startswith_def dict_get_def)
  have c: "\<not> response_ok (example_response ''/assets/app.css'' 404 False) \<and>
     \<not> endswith (response_url (example_response ''/assets/app.css'' 404 False)) ''.js'' \<and>
     endswith (response_url (example_response ''/assets/app.css'' 404 False)) ''.css'' \<and>
     \<not> py_in ''css''
       (dict_get (response_headers (example_response ''/assets/app.css'' 404 False)) ''content-type'' '''')"
    by (simp add: example_response_def endswith_def startswith_def dict_get_def)
  have ct: "dict_get (response_headers (example_response u st okf)) ''content-type'' '''' = ''text/html''"
    for u st okf
    by (simp add: example_response_def dict_get_def)
  from a b c
    mime_issue_only_when_response_not_ok [of "example_response ''/assets/app.js'' 200 True" two_pending]
    mime_issue_only_when_response_not_ok [of "example_response ''/assets/app.js'' 404 False" two_pending]
    mime_issue_only_when_response_not_ok [of "example_response ''/assets/app.css'' 404 False" two_pending]
  show ?thesis by (simp only: ct) blast
qed

text \<open>
  Counterexample to C3 as stated: the response to \<^verbatim>\<open>/assets/app.js\<close> with content type
  \<^verbatim>\<open>text/html\<close> and status 200 (ok) prints nothing, so no MIME type issue.
\<close>

theorem mime_check_skipped_when_ok:
  "endswith (response_url (example_response ''/assets/app.js'' 200 True)) ''.js'' \<and>
   \<not> py_in ''javascript''
       (dict_get (response_headers (example_response ''/assets/app.js'' 200 True)) ''content-type'' '''') \<and>
   response_ok (example_response ''/assets/app.js'' 200 True) \<and>
   snd (handle_response (example_response ''/assets/app.js'' 200 True) two_pending) = []"
  by (simp add: example_defs)

subsection \<open>C4: what stays of a recorded entry\<close>

text \<open>
  C4, as amended. Over any sequence of events the console log and the error log only
  grow at the end, and so does the list of the recorded parts of the requests (timestamp,
  method, url, headers, resource type): no entry is removed or reordered and those fields
  never change. The response fields of a request entry are not covered: \<^verbatim>\<open>handle_response\<close>
  writes them into the recorded entry.
\<close>

theorem session_keeps_recorded_entries:
  "(\<exists>ext. console_logs (fst (run_session evs d)) = console_logs d @ ext) \<and>
   (\<exists>ext. errors (fst (run_session evs d)) = errors d @ ext) \<and>
   (\<exists>ext. map request_part (network_requests (fst (run_session evs d)))
            = map request_part (network_requests d) @ ext)"
proof (induction evs arbitrary: d)
  case Nil
  then show ?case by simp
next
  case (Cons ev evs)
  from on_event_appends [of ev d] Cons.IH [of "fst (on_event ev d)"]
  show ?case unfolding run_session_Cons
    by (metis append.assoc)
qed

text \<open>
  Counterexample to C4 as stated: when the response arrives, the list of requests keeps
  its length and its first entry is no longer the entry that was recorded.
\<close>

theorem request_entry_edited_in_place:
  "length (network_requests (fst (handle_response (example_response ''/assets/app.js'' 200 True) two_pending)))
     = length (network_requests two_pending) \<and>
   network_requests (fst (handle_response (example_response ''/assets/app.js'' 200 True) two_pending)) ! 0
     \<noteq> network_requests two_pending ! 0"
  by (simp add: example_defs)

subsection \<open>C5: the uncaught syntax error on the console\<close>



subsection \<open>C6: a response without a pending request\<close>

text \<open>
  C6, as amended. When no recorded request with the url of a response is still without
  a response, the handler does not raise and the response is not recorded as one without
  a request: the console log and the error log are unchanged and no request entry is
  added, removed or changed in its recorded part. If no recorded request has the url at
  all, the data is unchanged; otherwise the earliest request with the url, which already
  has a response, is overwritten with this one. Nothing is printed when the response is
  ok; when it is not ok it is printed as a failed request.
\<close>

theorem response_without_pending_request:
  "(\<forall>q\<in>set (network_requests d). rq_url q = response_url r \<longrightarrow> rq_status q \<noteq> None) \<longrightarrow>
     console_logs (fst (handle_response r d)) = console_logs d \<and>
     errors (fst (handle_response r d)) = errors d \<and>
     map request_part (network_requests (fst (handle_response r d)))
       = map request_part (network_requests d) \<and>
     ((\<forall>q\<in>set (network_requests d). rq_url q \<noteq> response_url r) \<longrightarrow>
        fst (handle_response r d) = d) \<and>
     (\<forall>pre req post.
        network_requests d = pre @ req # post \<and> (\<forall>q\<in>set pre. rq_url q \<noteq> response_url r) \<and>
        rq_url req = response_url r \<longrightarrow>
        rq_status req \<noteq> None \<and>
        network_requests (fst (handle_response r d)) = pre @ req_update r req # post) \<and>
     (response_ok r \<longrightarrow> snd (handle_response r d) = []) \<and>
     (\<not> response_ok r \<longrightarrow>
        Failed_request (response_status r) (response_url r) \<in> set (snd (handle_response r d)))"
proof (intro impI conjI allI)
  show "console_logs (fst (handle_response r d)) = console_logs d"
    by (simp add: handle_response_def)
  show "errors (fst (handle_response r d)) = errors d"
    by (simp add: handle_response_def)
  show "map request_part (network_requests (fst (handle_response r d)))
          = map request_part (network_requests d)"
    by (simp add: handle_response_def request_part_find_corresponding)
next
  assume "\<forall>q\<in>set (network_requests d). rq_url q \<noteq> response_url r"
  then show "fst (handle_response r d) = d"
    by (simp add: handle_response_def find_corresponding_none)
next
  fix pre req post
  assume p: "\<forall>q\<in>set (network_requests d). rq_url q = response_url r \<longrightarrow> rq_status q \<noteq> None"
    and s: "network_requests d = pre @ req # post \<and> (\<forall>q\<in>set pre. rq_url q \<noteq> response_url r) \<and>
            rq_url req = response_url r"
  from s have "req \<in> set (network_requests d)" by simp
  with p s show "rq_status req \<noteq> None" by blast
  from s show "network_requests (fst (handle_response r d)) = pre @ req_update r req # post"
    by (simp add: handle_response_def find_corresponding_first)
next
  assume "response_ok r"
  then show "snd (handle_response r d) = []"
    by (simp add: handle_response_def failed_request_lines_def)
next
  assume "\<not> response_ok r"
  then show "Failed_request (response_status r) (response_url r) \<in> set (snd (handle_response r d))"
    by (simp add: handle_response_def failed_request_lines_def)
qed

text \<open>
  Witness for C6: an ok response that arrives before any request, and a failed response
  for a url whose only request has been answered with status 200.
\<close>

theorem response_without_pending_request_witness:
  "network_requests (initial_debug_data ''t0'') = [] \<and>
   fst (handle_response (example_response ''/assets/app.js'' 200 True) (initial_debug_data ''t0''))
     = initial_debug_data ''t0'' \<and>
   snd (handle_response (example_response ''/assets/app.js'' 200 True) (initial_debug_data ''t0'')) = [] \<and>
   map rq_url (network_requests one_answered) = [''/assets/app.js''] \<and>
   map rq_status (network_requests one_answered) = [Some 200] \<and>
   network_requests (fst (handle_response (example_response ''/assets/app.js'' 404 False) one_answered))
     = [] @ req_update (example_response ''/assets/app.js'' 404 False) (hd (network_requests one_answered)) # [] \<and>
   Failed_request 404 ''/assets/app.js''
     \<in> set (snd (handle_response (example_response ''/assets/app.js'' 404 False) one_answered))"
proof -
  have e: "network_requests (initial_debug_data ''t0'') = []"
    by (simp add: initial_debug_data_def)
  have p0: "\<forall>q\<in>set (network_requests (initial_debug_data ''t0'')).
              rq_url q = response_url (example_response ''/assets/app.js'' 200 True) \<longrightarrow> rq_status q \<noteq> None"
    by (simp add: e)
  have n0: "\<forall>q\<in>set (network_requests (initial_debug_data ''t0'')).
              rq_url q \<noteq> response_url (example_response ''/assets/app.js'' 200 True)"
    by (simp add: e)
  have u: "map rq_url (network_requests one_answered) = [''/assets/app.js'']"
    and st: "map rq_status (network_requests one_answered) = [Some 200]"
    by (simp_all add: one_answered_def example_defs)
  have p1: "\<forall>q\<in>set (network_requests one_answered).
              rq_url q = response_url (example_response ''/assets/app.js'' 404 False) \<longrightarrow> rq_status q \<noteq> None"
    by (simp add: one_answered_def example_defs)
  have s1: "network_requests one_answered = [] @ hd (network_requests one_answered) # [] \<and>
            (\<forall>q\<in>set []. rq_url q \<noteq> response_url (example_response ''/assets/app.js'' 404 False)) \<and>
            rq_url (hd (network_requests one_answered))
              = response_url (example_response ''/assets/app.js'' 404 False)"
    by (simp add: one_answered_def example_defs)
  have b: "response_ok (example_response ''/assets/app.js'' 200 True) \<and>
           \<not> response_ok (example_response ''/assets/app.js'' 404 False) \<and>
           response_status (example_response ''/assets/app.js'' 404 False) = 404 \<and>
           response_url (example_response ''/assets/app.js'' 404 False) = ''/assets/app.js''"
    by (simp add: example_response_def)
  note t0 = response_without_pending_request
      [of "initial_debug_data ''t0''" "example_response ''/assets/app.js'' 200 True", THEN mp, OF p0]
  note t1 = response_without_pending_request
      [of one_answered "example_response ''/assets/app.js'' 404 False", THEN mp, OF p1]
  have c0: "fst (handle_response (example_response ''/assets/app.js'' 200 True) (initial_debug_data ''t0''))
              = initial_debug_data ''t0''"
    using t0 n0 by blast
  have c1: "snd (handle_response (example_response ''/assets/app.js'' 200 True) (initial_debug_data ''t0'')) = []"
    using t0 b by blast
  have c2: "network_requests (fst (handle_response (example_response ''/assets/app.js'' 404 False) one_answered))
     = [] @ req_update (example_response ''/assets/app.js'' 404 False) (hd (network_requests one_answered)) # []"
    using t1 s1 by blast
  have c3: "Failed_request 404 ''/assets/app.js''
     \<in> set (snd (handle_response (example_response ''/assets/app.js'' 404 False) one_answered))"
    using t1 b by metis
  from e c0 c1 u st c2 c3 show ?thesis by blast
qed

text \<open>
  Counterexample to C6 as stated: an ok response that arrives before any request leaves
  the data unchanged and prints nothing; an ok response with status 204 for a url whose
  only request has been answered with status 200 overwrites that answer, adds no entry
  and prints nothing. Neither is logged or reported as a response without a request.
\<close>

theorem orphan_response_discarded:
  "handle_response (example_response ''/assets/app.js'' 200 True) (initial_debug_data ''t0'')
     = (initial_debug_data ''t0'', []) \<and>
   map rq_status (network_requests one_answered) = [Some 200] \<and>
   map rq_status (network_requests
       (fst (handle_response (example_response ''/assets/app.js'' 204 True) one_answered))) = [Some 204] \<and>
   console_logs (fst (handle_response (example_response ''/assets/app.js'' 204 True) one_answered)) = [] \<and>
   errors (fst (handle_response (example_response ''/assets/app.js'' 204 True) one_answered)) = [] \<and>
   snd (handle_response (example_response ''/assets/app.js'' 204 True) one_answered) = []"
  by (simp add: one_answered_def example_defs)

subsection \<open>C7: a script that cannot be fetched\<close>

text \<open>
  C7. A script whose fetch fails is to leave an entry in the collected errors. In the
  curl simulation a fetch that completes with a return code other than 0 leaves none:
  for the page with one script whose download ends with return code 7 the report has no
  error, counts one script and none analyzed, and the comprehensive test finds the page
  loading without errors.
\<close>

theorem failed_script_fetch_not_recorded:
  "run_alternative_simulation example_base_url failing_fetch =
     \<lparr>sr_page_loads = Some True, sr_html_valid = Some True, sr_scripts_analyzed = Some 0,
      sr_total_scripts = Some 1, sr_total_errors = Some 0, sr_error_details = Some [],
      sr_error = None, sr_method = Some ''curl_analysis''\<rparr> \<and>
   page_loads_without_errors (run_comprehensive_test example_base_url failing_fetch node env True) \<and>
   error_suppression_working_flag (run_comprehensive_test example_base_url failing_fetch node env True)"
proof -
  have a: "run_alternative_simulation example_base_url failing_fetch =
     \<lparr>sr_page_loads = Some True, sr_html_valid = Some True, sr_scripts_analyzed = Some 0,
      sr_total_scripts = Some 1, sr_total_errors = Some 0, sr_error_details = Some [],
      sr_error = None, sr_method = Some ''curl_analysis''\<rparr>"
    by code_simp
  have b: "run_browser_simulation example_base_url failing_fetch node env
             = run_alternative_simulation example_base_url failing_fetch"
    by (simp add: run_browser_simulation_def failing_fetch_def)
  show ?thesis
    by (simp add: run_comprehensive_test_def analyze_results_def b a)
qed

subsection \<open>C8: failed requests have a response\<close>

text \<open>
  C8. The requests counted as failed are among the requests with a recorded response
  status, so they are at most as many.
\<close>

theorem failed_requests_have_response:
  "length (failed_requests d)
     \<le> length (filter (\<lambda>req. rq_status req \<noteq> None) (network_requests d)) \<and>
   set (failed_requests d) \<subseteq> set (filter (\<lambda>req. rq_status req \<noteq> None) (network_requests d))"
proof -
  have "failed_requests d
          = filter (\<lambda>req. \<not> req_get_ok req) (filter (\<lambda>req. rq_status req \<noteq> None) (network_requests d))"
    by (simp add: failed_requests_def conj_commute)
  then show ?thesis by (metis length_filter_le filter_is_subset)
qed

subsection \<open>C9: the aggregation run twice\<close>

text \<open>
  C9, as amended. The summary and the printed lines of the final analysis are the same
  for any two data with the same console log, request list and page state, given the
  same outcome of the report-file write; and the same again when the analysis is run a
  second time on the data a first run has left, whatever the outcome of the first run.
  The critical issues are empty exactly when there is no error log, no failed request,
  no failed JavaScript execution and no error boundary text; they contain the entry on
  the console errors whenever there is an error log and the entry on the failed requests
  whenever there is one; and each of them is printed. The analysis does input and
  output: when the report file is written, the file holds the data, the data is returned
  unchanged and the summary has the critical issues; when the write raises, an entry is
  appended to the error log of the data and the summary returned has the text of the
  exception as its only critical issue. The pattern analysis of the wallet messages
  leaves the messages unchanged and its two counts together are at most their number.
\<close>

theorem aggregation_is_repeatable:
  "(console_logs d = console_logs d' \<and> network_requests d = network_requests d' \<and>
      dd_page_state d = dd_page_state d' \<longrightarrow>
      fst (snd (final_analysis now outcome d)) = fst (snd (final_analysis now' outcome d')) \<and>
      fst (snd (snd (final_analysis now outcome d)))
        = fst (snd (snd (final_analysis now' outcome d')))) \<and>
   fst (snd (final_analysis now2 outcome (fst (final_analysis now1 outcome1 d))))
     = fst (snd (final_analysis now outcome d)) \<and>
   fst (snd (snd (final_analysis now2 outcome (fst (final_analysis now1 outcome1 d)))))
     = fst (snd (snd (final_analysis now outcome d))) \<and>
   (critical_issues_of d = []) =
     (error_logs d = [] \<and> failed_requests d = [] \<and> js_execution (dd_page_state d) \<noteq> Some False \<and>
      (error_boundary (dd_page_state d) = None \<or> error_boundary (dd_page_state d) = Some [])) \<and>
   (error_logs d \<noteq> [] \<longrightarrow>
      (str_nat (length (error_logs d)) @ '' console errors detected'') \<in> set (critical_issues_of d)) \<and>
   (failed_requests d \<noteq> [] \<longrightarrow>
      (str_nat (length (failed_requests d)) @ '' failed network requests'')
        \<in> set (critical_issues_of d)) \<and>
   Critical_issue_line ` set (critical_issues_of d)
     \<subseteq> set (fst (snd (snd (final_analysis now outcome d)))) \<and>
   final_analysis now Written d
     = (d, \<lparr>critical_issues = critical_issues_of d, warnings = [], recommendations = []\<rparr>,
        fst (snd (snd (final_analysis now Written d))), Some d) \<and>
   errors (fst (final_analysis now (Write_failed e) d))
     = errors d @ [\<lparr>er_timestamp = now, er_message = e, er_type = ''investigation_error''\<rparr>] \<and>
   critical_issues (fst (snd (final_analysis now (Write_failed e) d))) = [e] \<and>
   fst (analyze_patterns console_messages) = console_messages \<and>
   suppressed_count (fst (snd (analyze_patterns console_messages)))
     + genuine_error_count (fst (snd (analyze_patterns console_messages)))
     \<le> length console_messages"
proof -
  have same: "critical_issues_of x = critical_issues_of y"
    if "console_logs x = console_logs y" "network_requests x = network_requests y"
      "dd_page_state x = dd_page_state y" for x y
    using that by (simp add: critical_issues_of_def error_logs_def failed_requests_def)
  have summary: "fst (snd (final_analysis t w x)) = fst (snd (final_analysis t' w y)) \<and>
      fst (snd (snd (final_analysis t w x))) = fst (snd (snd (final_analysis t' w y)))"
    if "critical_issues_of x = critical_issues_of y" for t t' w x y
    using that by (cases w) (simp_all add: final_analysis_def)
  have left: "console_logs (fst (final_analysis t w x)) = console_logs x \<and>
      network_requests (fst (final_analysis t w x)) = network_requests x \<and>
      dd_page_state (fst (final_analysis t w x)) = dd_page_state x" for t w x
    by (cases w) (simp_all add: final_analysis_def)
  have a: "console_logs d = console_logs d' \<and> network_requests d = network_requests d' \<and>
      dd_page_state d = dd_page_state d' \<longrightarrow>
      fst (snd (final_analysis now outcome d)) = fst (snd (final_analysis now' outcome d')) \<and>
      fst (snd (snd (final_analysis now outcome d)))
        = fst (snd (snd (final_analysis now' outcome d')))"
    using same summary by blast
  have b: "fst (snd (final_analysis now2 outcome (fst (final_analysis now1 outcome1 d))))
             = fst (snd (final_analysis now outcome d)) \<and>
           fst (snd (snd (final_analysis now2 outcome (fst (final_analysis now1 outcome1 d)))))
             = fst (snd (snd (final_analysis now outcome d)))"
    using same [of "fst (final_analysis now1 outcome1 d)" d] left [of now1 outcome1 d]
      summary [of "fst (final_analysis now1 outcome1 d)" d now2 outcome now]
    by blast
  have c: "(critical_issues_of d = []) =
     (error_logs d = [] \<and> failed_requests d = [] \<and> js_execution (dd_page_state d) \<noteq> Some False \<and>
      (error_boundary (dd_page_state d) = None \<or> error_boundary (dd_page_state d) = Some []))"
    by (auto simp: critical_issues_of_def split: option.splits)
  have e1: "error_logs d \<noteq> [] \<longrightarrow>
      (str_nat (length (error_logs d)) @ '' console errors detected'') \<in> set (critical_issues_of d)"
    by (simp add: critical_issues_of_def)
  have e2: "failed_requests d \<noteq> [] \<longrightarrow>
      (str_nat (length (failed_requests d)) @ '' failed network requests'')
        \<in> set (critical_issues_of d)"
    by (simp add: critical_issues_of_def)
  have f: "Critical_issue_line ` set (critical_issues_of d)
     \<subseteq> set (fst (snd (snd (final_analysis now outcome d))))"
    by (cases outcome) (auto simp: final_analysis_def)
  have g: "final_analysis now Written d
     = (d, \<lparr>critical_issues = critical_issues_of d, warnings = [], recommendations = []\<rparr>,
        fst (snd (snd (final_analysis now Written d))), Some d)"
    by (simp add: final_analysis_def)
  have h: "errors (fst (final_analysis now (Write_failed e) d))
     = errors d @ [\<lparr>er_timestamp = now, er_message = e, er_type = ''investigation_error''\<rparr>] \<and>
     critical_issues (fst (snd (final_analysis now (Write_failed e) d))) = [e]"
    by (simp add: final_analysis_def)
  have w: "fst (analyze_patterns console_messages) = console_messages \<and>
     suppressed_count (fst (snd (analyze_patterns console_messages)))
       + genuine_error_count (fst (snd (analyze_patterns console_messages)))
       \<le> length console_messages"
    using filter_disjoint_length
      [of "\<lambda>msg. py_in ''suppressed'' (lower (wm_text msg))" console_messages
          "\<lambda>msg. wm_type msg = ''error''"]
    by (simp add: analyze_patterns_def suppressed_errors_def genuine_errors_def)
  from a b c e1 e2 f g h w show ?thesis by blast
qed

text \<open>
  Witness for C9: the session with a console error and a failed request, and the same
  data with another start time and an empty error log; both give the same two critical
  issues.
\<close>

theorem aggregation_is_repeatable_witness:
  "console_logs busy_session = console_logs busy_session_later \<and>
   network_requests busy_session = network_requests busy_session_later \<and>
   dd_page_state busy_session = dd_page_state busy_session_later \<and>
   dd_timestamp busy_session \<noteq> dd_timestamp busy_session_later \<and>
   errors busy_session \<noteq> errors busy_session_later \<and>
   length (error_logs busy_session) = 1 \<and>
   length (failed_requests busy_session) = 1 \<and>
   critical_issues (fst (snd (final_analysis ''t5'' Written busy_session)))
     = [''1 console errors detected'', ''1 failed network requests''] \<and>
   fst (snd (final_analysis ''t6'' Written busy_session_later))
     = fst (snd (final_analysis ''t5'' Written busy_session))"
proof -
  have a: "console_logs busy_session = console_logs busy_session_later \<and>
     network_requests busy_session = network_requests busy_session_later \<and>
     dd_page_state busy_session = dd_page_state busy_session_later"
    by (simp add: busy_session_later_def)
  have b: "dd_timestamp busy_session \<noteq> dd_timestamp busy_session_later \<and>
     errors busy_session \<noteq> errors busy_session_later"
    by (simp add: busy_session_later_def busy_session_def handle_console_def handle_request_def
        handle_response_def handle_page_error_def initial_debug_data_def)
  have c: "length (error_logs busy_session) = 1" "length (failed_requests busy_session) = 1"
    by code_simp+
  have d: "critical_issues (fst (snd (final_analysis ''t5'' Written busy_session)))
     = [''1 console errors detected'', ''1 failed network requests'']"
    by code_simp
  from a b c d
    aggregation_is_repeatable
      [of busy_session busy_session_later "''t5''" Written "''t6''" "''t5''" "''t5''" Written
          "''disk full''" "[]"]
  show ?thesis by metis
qed

text \<open>
  Counterexample to C9 as stated. The aggregation prints and writes the report file;
  and when the write raises, the summary returned is not the one computed from the logs
  and the input gains an entry in its error log.
\<close>

theorem aggregation_prints_and_may_change_its_input:
  "fst (snd (snd (final_analysis ''t5'' Written busy_session)))
     = [Critical_issues_header, Critical_issue_line ''1 console errors detected'',
        Critical_issue_line ''1 failed network requests'', Debug_data_saved] \<and>
   snd (snd (snd (final_analysis ''t5'' Written busy_session))) = Some busy_session \<and>
   critical_issues (fst (snd (final_analysis ''t5'' Written busy_session)))
     = [''1 console errors detected'', ''1 failed network requests''] \<and>
   critical_issues (fst (snd (final_analysis ''t5'' (Write_failed ''disk full'') busy_session)))
     = [''disk full''] \<and>
   map er_type (errors busy_session) = [''page_error''] \<and>
   map er_type (errors (fst (final_analysis ''t5'' (Write_failed ''disk full'') busy_session)))
     = [''page_error'', ''investigation_error''] \<and>
   snd (snd (analyze_patterns [])) = [Suppressed_errors_line 0, Genuine_errors_line 0]"
proof -
  have a: "fst (snd (snd (final_analysis ''t5'' Written busy_session)))
     = [Critical_issues_header, Critical_issue_line ''1 console errors detected'',
        Critical_issue_line ''1 failed network requests'', Debug_data_saved]"
    by code_simp
  have b: "snd (snd (snd (final_analysis ''t5'' Written busy_session))) = Some busy_session"
    by (simp add: final_analysis_def)
  have c: "critical_issues (fst (snd (final_analysis ''t5'' Written busy_session)))
     = [''1 console errors detected'', ''1 failed network requests'']"
    by code_simp
  have d: "critical_issues (fst (snd (final_analysis ''t5'' (Write_failed ''disk full'') busy_session)))
     = [''disk full'']"
    by (simp add: final_analysis_def)
  have e: "map er_type (errors busy_session) = [''page_error'']"
    "map er_type (errors (fst (final_analysis ''t5'' (Write_failed ''disk full'') busy_session)))
     = [''page_error'', ''investigation_error'']"
    by code_simp+
  have f: "snd (snd (analyze_patterns [])) = [Suppressed_errors_line 0, Genuine_errors_line 0]"
    by (simp add: analyze_patterns_def suppressed_errors_def genuine_errors_def)
  from a b c d e f show ?thesis by blast
qed

subsection \<open>C10: only the first ten collected errors are classified\<close>

text \<open>
  C10. In every comprehensive run, whichever simulation runs and however it ends, the
  list of error details that is classified has at most ten entries, and the syntax
  errors found, the node errors found and the error suppression flag are computed from
  that list alone. When the curl simulation runs and fetches the page, the list is the
  first ten of the errors that its script loop collected; when the Node.js simulator
  runs, fetches the page and its report is read, the list is the first ten of the
  errors that the simulator's script loop collected. An entry at the eleventh place or
  later does not enter the verdict.
\<close>

theorem verdict_from_first_ten_errors:
  "length (classified_details (run_browser_simulation base_url run node env)) \<le> 10 \<and>
   syntax_errors_found (run_comprehensive_test base_url run node env b)
     = filter is_syntax_error (classified_details (run_browser_simulation base_url run node env)) \<and>
   node_errors_found (run_comprehensive_test base_url run node env b)
     = filter is_node_error (classified_details (run_browser_simulation base_url run node env)) \<and>
   error_suppression_working_flag (run_comprehensive_test base_url run node env b)
     = (filter is_syntax_error (classified_details (run_browser_simulation base_url run node env)) = [] \<and>
        filter is_node_error (classified_details (run_browser_simulation base_url run node env)) = []) \<and>
   (run [''which'', ''node''] = Completed returncode out \<and> returncode \<noteq> 0 \<and>
    run [''curl'', ''-s'', ''-w'', ''%{http_code}'', base_url] = Completed page_returncode page_stdout \<and>
    run [''curl'', ''-s'', base_url] = Completed 0 html_content \<longrightarrow>
      classified_details (run_browser_simulation base_url run node env)
        = take 10 (collected_errors base_url run html_content)) \<and>
   (run [''which'', ''node''] = Completed 0 node_path \<and> node = Node_completed True \<and>
    env_fetchPage env = Resolved htmlContent \<and> js_scripts htmlContent = Some scripts \<longrightarrow>
      classified_details (run_browser_simulation base_url run node env)
        = take 10 (js_analyze_scripts (env_fetchScript env) scripts []))"
proof -
  have fn: "(\<lambda>e. py_in ''SyntaxError'' e \<or> py_in ''Invalid or unexpected token'' e) = is_syntax_error"
    "(\<lambda>e. py_in ''Node cannot be found'' e) = is_node_error"
    by (simp_all add: is_syntax_error_def is_node_error_def fun_eq_iff)
  have verdict:
    "syntax_errors_found (run_comprehensive_test base_url run node env b)
       = filter is_syntax_error (classified_details (run_browser_simulation base_url run node env)) \<and>
     node_errors_found (run_comprehensive_test base_url run node env b)
       = filter is_node_error (classified_details (run_browser_simulation base_url run node env)) \<and>
     error_suppression_working_flag (run_comprehensive_test base_url run node env b)
       = (filter is_syntax_error (classified_details (run_browser_simulation base_url run node env)) = [] \<and>
          filter is_node_error (classified_details (run_browser_simulation base_url run node env)) = [])"
    by (simp add: run_comprehensive_test_def analyze_results_def Let_def classified_details_def fn)
  have curl: "classified_details (run_browser_simulation base_url run node env)
        = take 10 (collected_errors base_url run html_content)"
    if "run [''which'', ''node''] = Completed returncode out" "returncode \<noteq> 0"
      "run [''curl'', ''-s'', ''-w'', ''%{http_code}'', base_url] = Completed page_returncode page_stdout"
      "run [''curl'', ''-s'', base_url] = Completed 0 html_content"
  proof -
    have fa: "re_findall script_pattern html_content no_flags
                = Inr (map (findall_item script_pattern) (scan no_flags script_pattern 0 None html_content))"
      by (simp add: re_findall_def script_pattern_compiles)
    have "run_browser_simulation base_url run node env = run_alternative_simulation base_url run"
      using that(1,2) by (simp add: run_browser_simulation_def)
    then show ?thesis
      using that(3,4)
      by (simp add: run_alternative_simulation_def collected_errors_def classified_details_def fa
          Let_def split_beta)
  qed
  have nodejs: "classified_details (run_browser_simulation base_url run node env)
        = take 10 (js_analyze_scripts (env_fetchScript env) scripts [])"
    if "run [''which'', ''node''] = Completed 0 node_path" "node = Node_completed True"
      "env_fetchPage env = Resolved htmlContent" "js_scripts htmlContent = Some scripts"
    using that
    by (simp add: run_browser_simulation_def node_result_def runTest_def report_dict_def
        classified_details_def Let_def)
  from browser_details_at_most_ten [of base_url run node env] verdict curl nodejs
  show ?thesis by blast
qed

text \<open>
  Witness for C10: the page with two scripts collects eleven errors, the eleventh being
  \<^verbatim>\<open>SyntaxError\<close>, in the curl simulation and in the Node.js simulator alike; in both
  runs no syntax error is found and the error suppression flag is set.
\<close>

theorem verdict_from_first_ten_errors_witness:
  "eleven_errors [''which'', ''node''] = Completed 1 '''' \<and>
   eleven_errors [''curl'', ''-s'', ''-w'', ''%{http_code}'', example_base_url]
     = Completed 0 (two_script_html @ ''200'') \<and>
   eleven_errors [''curl'', ''-s'', example_base_url] = Completed 0 two_script_html \<and>
   collected_errors example_base_url eleven_errors two_script_html
     = replicate 10 ''ReferenceError'' @ [''SyntaxError''] \<and>
   is_syntax_error ''SyntaxError'' \<and>
   syntax_errors_found
     (run_comprehensive_test example_base_url eleven_errors Node_timeout eleven_errors_js True) = [] \<and>
   error_suppression_working_flag
     (run_comprehensive_test example_base_url eleven_errors Node_timeout eleven_errors_js True) \<and>
   node_present [''which'', ''node''] = Completed 0 ''/usr/bin/node'' \<and>
   env_fetchPage eleven_errors_js = Resolved two_script_html \<and>
   js_scripts two_script_html = Some [''/a.js'', ''/b.js''] \<and>
   js_analyze_scripts (env_fetchScript eleven_errors_js) [''/a.js'', ''/b.js''] []
     = replicate 10 ''ReferenceError'' @ [''SyntaxError''] \<and>
   syntax_errors_found
     (run_comprehensive_test example_base_url node_present (Node_completed True) eleven_errors_js True)
     = [] \<and>
   error_suppression_working_flag
     (run_comprehensive_test example_base_url node_present (Node_completed True) eleven_errors_js True)"
proof -
  have h1: "eleven_errors [''which'', ''node''] = Completed 1 '''' \<and> (1::int) \<noteq> 0"
    by (simp add: eleven_errors_def)
  have h3: "eleven_errors [''curl'', ''-s'', ''-w'', ''%{http_code}'', example_base_url]
              = Completed 0 (two_script_html @ ''200'')"
    by (simp add: eleven_errors_def)
  have h4: "eleven_errors [''curl'', ''-s'', example_base_url] = Completed 0 two_script_html"
    by (simp add: eleven_errors_def example_base_url_def)
  have c: "collected_errors example_base_url eleven_errors two_script_html
             = replicate 10 ''ReferenceError'' @ [''SyntaxError'']"
    by code_simp
  have f: "filter is_syntax_error (replicate 10 ''ReferenceError'') = []"
    "filter is_node_error (replicate 10 ''ReferenceError'') = []"
    "is_syntax_error ''SyntaxError''"
    by code_simp+
  have n1: "node_present [''which'', ''node''] = Completed 0 ''/usr/bin/node''"
    by (simp add: node_present_def)
  have n2: "env_fetchPage eleven_errors_js = Resolved two_script_html"
    by (simp add: eleven_errors_js_def)
  have n3: "js_scripts two_script_html = Some [''/a.js'', ''/b.js'']"
    by code_simp
  have n4: "js_analyze_scripts (env_fetchScript eleven_errors_js) [''/a.js'', ''/b.js''] []
     = replicate 10 ''ReferenceError'' @ [''SyntaxError'']"
    by code_simp
  have t: "take 10 (replicate 10 ''ReferenceError'' @ [''SyntaxError'']) = replicate 10 ''ReferenceError''"
    by simp
  note curl = verdict_from_first_ten_errors
      [of example_base_url eleven_errors Node_timeout eleven_errors_js True 1 "''''" 0
          "two_script_html @ ''200''" two_script_html]
  note nodejs = verdict_from_first_ten_errors
      [of example_base_url node_present "Node_completed True" eleven_errors_js True _ _ _ _ _
          "''/usr/bin/node''" two_script_html "[''/a.js'', ''/b.js'']"]
  have d1: "classified_details
              (run_browser_simulation example_base_url eleven_errors Node_timeout eleven_errors_js)
            = replicate 10 ''ReferenceError''"
    using curl h1 h3 h4 c t by metis
  have d2: "classified_details
              (run_browser_simulation example_base_url node_present (Node_completed True) eleven_errors_js)
            = replicate 10 ''ReferenceError''"
    using nodejs n1 n2 n3 n4 t by metis
  from curl d1 f have r1:
    "syntax_errors_found
       (run_comprehensive_test example_base_url eleven_errors Node_timeout eleven_errors_js True) = [] \<and>
     error_suppression_working_flag
       (run_comprehensive_test example_base_url eleven_errors Node_timeout eleven_errors_js True)"
    by simp
  from nodejs d2 f have r2:
    "syntax_errors_found
       (run_comprehensive_test example_base_url node_present (Node_completed True) eleven_errors_js True)
       = [] \<and>
     error_suppression_working_flag
       (run_comprehensive_test example_base_url node_present (Node_completed True) eleven_errors_js True)"
    by simp
  from h1 h3 h4 c f n1 n2 n3 n4 r1 r2 show ?thesis by blast
qed

end
